theory Spec2Isabelle
  imports Complex_Main "HOL-Library.Char_ord" "HOL-Library.List_Lexorder"
    "HOL-Library.Product_Lexorder" "HOL-Library.Multiset"
begin

section \<open>Floating-point cells\<close>

text \<open>
  The pipeline computes on pandas columns of dtype float64. A cell of such a column is
  modelled as a real number, one of the two infinities, or NaN. Finite arithmetic is
  exact (rounding is not modelled) and zero carries no sign, so a positive number
  divided by zero is \<open>PInf\<close>; a comparison with NaN is false, and NaN is what pandas
  counts as a missing value.
\<close>

datatype fl = NaN | NInf | Fin real | PInf

fun fneg :: "fl \<Rightarrow> fl" where
  "fneg NaN = NaN"
| "fneg NInf = PInf"
| "fneg PInf = NInf"
| "fneg (Fin a) = Fin (- a)"

fun fadd :: "fl \<Rightarrow> fl \<Rightarrow> fl" where
  "fadd NaN y = NaN"
| "fadd x NaN = NaN"
| "fadd (Fin a) (Fin b) = Fin (a + b)"
| "fadd PInf NInf = NaN"
| "fadd NInf PInf = NaN"
| "fadd PInf y = PInf"
| "fadd x PInf = PInf"
| "fadd NInf y = NInf"
| "fadd x NInf = NInf"

definition fsub :: "fl \<Rightarrow> fl \<Rightarrow> fl" where
  "fsub x y = fadd x (fneg y)"

fun fmul :: "fl \<Rightarrow> fl \<Rightarrow> fl" where
  "fmul NaN y = NaN"
| "fmul x NaN = NaN"
| "fmul (Fin a) (Fin b) = Fin (a * b)"
| "fmul PInf (Fin b) = (if b = 0 then NaN else if 0 < b then PInf else NInf)"
| "fmul NInf (Fin b) = (if b = 0 then NaN else if 0 < b then NInf else PInf)"
| "fmul (Fin a) PInf = (if a = 0 then NaN else if 0 < a then PInf else NInf)"
| "fmul (Fin a) NInf = (if a = 0 then NaN else if 0 < a then NInf else PInf)"
| "fmul PInf PInf = PInf"
| "fmul NInf NInf = PInf"
| "fmul PInf NInf = NInf"
| "fmul NInf PInf = NInf"

fun fdiv :: "fl \<Rightarrow> fl \<Rightarrow> fl" where
  "fdiv NaN y = NaN"
| "fdiv x NaN = NaN"
| "fdiv (Fin a) (Fin b) =
     (if b \<noteq> 0 then Fin (a / b)
      else if a = 0 then NaN else if 0 < a then PInf else NInf)"
| "fdiv (Fin a) PInf = Fin 0"
| "fdiv (Fin a) NInf = Fin 0"
| "fdiv PInf (Fin b) = (if 0 \<le> b then PInf else NInf)"
| "fdiv NInf (Fin b) = (if 0 \<le> b then NInf else PInf)"
| "fdiv PInf y = NaN"
| "fdiv NInf y = NaN"

fun flt :: "fl \<Rightarrow> fl \<Rightarrow> bool" where
  "flt NaN y = False"
| "flt x NaN = False"
| "flt (Fin a) (Fin b) = (a < b)"
| "flt x NInf = False"
| "flt NInf y = True"
| "flt PInf y = False"
| "flt x PInf = True"

definition fgt :: "fl \<Rightarrow> fl \<Rightarrow> bool" where
  "fgt x y = flt y x"

section \<open>pandas Series operations\<close>

text \<open>A Series is the list of its cells in index order.\<close>

text \<open>\<open>Series.shift(p)\<close>: the values move \<open>p\<close> places down (up when \<open>p\<close> is negative)
  and the vacated places hold NaN.\<close>

definition shift :: "fl list \<Rightarrow> int \<Rightarrow> fl list" where
  "shift xs p =
     (let n = length xs in
      if 0 \<le> p then replicate (min (nat p) n) NaN @ take (n - nat p) xs
      else drop (nat (- p)) xs @ replicate (min (nat (- p)) n) NaN)"

text \<open>\<open>fillna(method="ffill")\<close>: a missing cell takes the last value seen before it.\<close>

fun ffill_from :: "('a \<Rightarrow> bool) \<Rightarrow> 'a \<Rightarrow> 'a list \<Rightarrow> 'a list" where
  "ffill_from na prev [] = []"
| "ffill_from na prev (x # xs) =
     (if na x then prev # ffill_from na prev xs else x # ffill_from na x xs)"

fun ffill :: "('a \<Rightarrow> bool) \<Rightarrow> 'a list \<Rightarrow> 'a list" where
  "ffill na [] = []"
| "ffill na (x # xs) = x # ffill_from na x xs"

definition bfill :: "('a \<Rightarrow> bool) \<Rightarrow> 'a list \<Rightarrow> 'a list" where
  "bfill na xs = rev (ffill na (rev xs))"

definition fl_isna :: "fl \<Rightarrow> bool" where
  "fl_isna x = (x = NaN)"

text \<open>\<open>Series.pct_change(periods=p)\<close> with the default \<open>fill_method='pad'\<close>:
  \<open>data = self.ffill(); data / data.shift(p) - 1\<close>.\<close>

definition pct_change :: "fl list \<Rightarrow> int \<Rightarrow> fl list" where
  "pct_change xs p =
     (let data = ffill fl_isna xs
      in map2 (\<lambda>a b. fsub (fdiv a b) (Fin 1)) data (shift data p))"

text \<open>\<open>Series.diff()\<close>: \<open>self - self.shift(1)\<close>.\<close>

definition diff :: "fl list \<Rightarrow> fl list" where
  "diff xs = map2 fsub xs (shift xs 1)"

text \<open>\<open>Series.where(cond, other)\<close>: keep the cell where the condition holds.\<close>

definition where_cond :: "(fl \<Rightarrow> bool) \<Rightarrow> fl \<Rightarrow> fl list \<Rightarrow> fl list" where
  "where_cond c other xs = map (\<lambda>x. if c x then x else other) xs"

text \<open>\<open>Series.rolling(window=w).mean()\<close>: \<open>min_periods\<close> defaults to the window, so
  the cell at index \<open>i\<close> is NaN unless the window \<open>i-w+1..i\<close> lies in the series and
  holds \<open>w\<close> values that are not NaN; then it is their sum divided by their count.\<close>

definition fsum :: "fl list \<Rightarrow> fl" where
  "fsum xs = foldl fadd (Fin 0) xs"

definition window :: "fl list \<Rightarrow> nat \<Rightarrow> nat \<Rightarrow> fl list" where
  "window xs w i = take w (drop (Suc i - w) xs)"

definition rolling_mean_at :: "fl list \<Rightarrow> nat \<Rightarrow> nat \<Rightarrow> fl" where
  "rolling_mean_at xs w i =
     (let obs = filter (\<lambda>x. \<not> fl_isna x) (window xs w i)
      in if Suc i < w \<or> length obs < w then NaN
         else fdiv (fsum obs) (Fin (real (length obs))))"

definition rolling_mean :: "fl list \<Rightarrow> nat \<Rightarrow> fl list" where
  "rolling_mean xs w = map (rolling_mean_at xs w) [0..<length xs]"

section \<open>Indicator Engine: RSI\<close>

text \<open>\<open>calculate_rsi(series, period)\<close> of \<open>4_technical_indicators.py\<close>.\<close>

definition rsi_gain :: "fl list \<Rightarrow> nat \<Rightarrow> fl list" where
  "rsi_gain series period =
     rolling_mean (where_cond (\<lambda>d. fgt d (Fin 0)) (Fin 0) (diff series)) period"

definition rsi_loss :: "fl list \<Rightarrow> nat \<Rightarrow> fl list" where
  "rsi_loss series period =
     rolling_mean (map fneg (where_cond (\<lambda>d. flt d (Fin 0)) (Fin 0) (diff series))) period"

definition calculate_rsi :: "fl list \<Rightarrow> nat \<Rightarrow> fl list" where
  "calculate_rsi series period =
     (let gain = rsi_gain series period;
          loss = rsi_loss series period;
          rs = map2 fdiv gain loss
      in map (\<lambda>r. fsub (Fin 100) (fdiv (Fin 100) (fadd (Fin 1) r))) rs)"

fun is_fin :: "fl \<Rightarrow> bool" where
  "is_fin (Fin a) = True"
| "is_fin x = False"

text \<open>A finite cell that is not negative: an average gain or loss.\<close>

fun nonneg_fin :: "fl \<Rightarrow> bool" where
  "nonneg_fin (Fin a) = (0 \<le> a)"
| "nonneg_fin x = False"

text \<open>Fifteen sample closes: thirteen daily rises of 1, then a fall of 1.\<close>

definition demo_closes :: "fl list" where
  "demo_closes = map Fin [100, 101, 102, 103, 104, 105, 106, 107, 108, 109, 110, 111, 112,
     113, 112]"

section \<open>Data frames\<close>

text \<open>
  A DataFrame is its list of column names and its rows in index order. The two key
  columns every stage reads by name, \<open>date\<close> (a day number) and \<open>asset\<close>, are typed
  fields of a row; every other column is looked up by name in \<open>cells\<close>. A cell is a
  float, an integer or a string (object and categorical columns hold NaN where a value
  is missing).
\<close>

datatype cell = F fl | I int | S string

record row =
  date :: int
  asset :: string
  cells :: "string \<Rightarrow> cell"

record dataframe =
  columns :: "string list"
  rows :: "row list"

datatype error = KeyError string | ValueError string | InvalidIndexError

fun num :: "cell \<Rightarrow> fl" where
  "num (F x) = x"
| "num (I n) = Fin (of_int n)"
| "num (S s) = NaN"

fun isna :: "cell \<Rightarrow> bool" where
  "isna (F x) = (x = NaN)"
| "isna (I n) = False"
| "isna (S s) = False"

text \<open>\<open>df[name] = values\<close>: a new column is appended, an existing one overwritten.\<close>

definition set_column :: "dataframe \<Rightarrow> string \<Rightarrow> cell list \<Rightarrow> dataframe" where
  "set_column df name vals =
     \<lparr>columns = (if name \<in> set (columns df) then columns df else columns df @ [name]),
      rows = map2 (\<lambda>r v. r\<lparr>cells := (cells r)(name := v)\<rparr>) (rows df) vals\<rparr>"

definition column :: "dataframe \<Rightarrow> string \<Rightarrow> fl list" where
  "column df name = map (\<lambda>r. num (cells r name)) (rows df)"

text \<open>\<open>df.groupby("asset")[col].transform(f)\<close>: \<open>f\<close> runs on the sub-series of each
  asset (its rows in frame order) and every row receives the cell of its own position
  within its asset's result.\<close>

definition group_series :: "string \<Rightarrow> row list \<Rightarrow> string \<Rightarrow> fl list" where
  "group_series col rs a = map (\<lambda>r. num (cells r col)) (filter (\<lambda>r. asset r = a) rs)"

definition group_rank :: "row list \<Rightarrow> nat \<Rightarrow> nat" where
  "group_rank rs i = length (filter (\<lambda>r. asset r = asset (rs ! i)) (take i rs))"

definition groupby_transform :: "string \<Rightarrow> (fl list \<Rightarrow> fl list) \<Rightarrow> row list \<Rightarrow> fl list" where
  "groupby_transform col f rs =
     map (\<lambda>i. f (group_series col rs (asset (rs ! i))) ! group_rank rs i) [0..<length rs]"

text \<open>Python's \<open>str\<close> of an integer, for the f-strings that build column names.\<close>

fun str_nat :: "nat \<Rightarrow> string" where
  "str_nat n =
     (if n < 10 then [''0123456789'' ! n]
      else str_nat (n div 10) @ [''0123456789'' ! (n mod 10)])"

declare str_nat.simps [simp del]

definition str_int :: "int \<Rightarrow> string" where
  "str_int i = (if i < 0 then CHR ''-'' # str_nat (nat (- i)) else str_nat (nat i))"

section \<open>Label Generator\<close>

text \<open>\<open>create_targets(df, forward_periods)\<close> of \<open>5_feature_engineering.py\<close>. The loop
  body adds, for one period, the return column and the direction column; the
  statistics printed afterwards change nothing.\<close>

definition target_return_col :: "int \<Rightarrow> string" where
  "target_return_col period = ''target_return_'' @ str_int period @ ''d''"

definition target_direction_col :: "int \<Rightarrow> string" where
  "target_direction_col period = ''target_direction_'' @ str_int period @ ''d''"

definition threshold :: "int \<Rightarrow> real" where
  "threshold period = (if 14 \<le> period then 0.03 else if 7 \<le> period then 0.02 else 0.015)"

definition create_targets_step :: "dataframe \<Rightarrow> int \<Rightarrow> error + dataframe" where
  "create_targets_step df period =
     (if ''close'' \<notin> set (columns df) then Inl (KeyError ''close'')
      else
        let ret = groupby_transform ''close'' (\<lambda>x. pct_change x (- period)) (rows df);
            df1 = set_column df (target_return_col period) (map F ret);
            thr = threshold period;
            df2 = set_column df1 (target_direction_col period)
                    (map (\<lambda>x. I (if fgt x (Fin thr) then 1 else 0))
                       (column df1 (target_return_col period)));
            df3 = set_column df2 (target_direction_col period)
                    (map2 (\<lambda>d x. if flt x (Fin (- thr)) then I 0 else d)
                       (map (\<lambda>r. cells r (target_direction_col period)) (rows df2))
                       (column df2 (target_return_col period)))
        in Inr df3)"

fun create_targets :: "dataframe \<Rightarrow> int list \<Rightarrow> error + dataframe" where
  "create_targets df [] = Inr df"
| "create_targets df (period # periods) =
     (case create_targets_step df period of
        Inl e \<Rightarrow> Inl e
      | Inr df' \<Rightarrow> create_targets df' periods)"

definition FORWARD_PERIODS :: "int list" where
  "FORWARD_PERIODS = [3, 7, 14]"

subsection \<open>Sample price frames\<close>

definition price_row :: "int \<Rightarrow> string \<Rightarrow> real \<Rightarrow> row" where
  "price_row d a c = \<lparr>date = d, asset = a, cells = (\<lambda>_. F NaN)(''close'' := F (Fin c))\<rparr>"

text \<open>Two assets over four days, interleaved: BTC falls from 103 to 100 and ETH from
  101.5 to 100.\<close>

definition demo_prices :: dataframe where
  "demo_prices = \<lparr>columns = [''date'', ''asset'', ''close''],
     rows = [price_row 0 ''BTC'' 103, price_row 0 ''ETH'' 101.5,
             price_row 1 ''BTC'' 100, price_row 1 ''ETH'' 100,
             price_row 2 ''BTC'' 100, price_row 2 ''ETH'' 100,
             price_row 3 ''BTC'' 100, price_row 3 ''ETH'' 100]\<rparr>"

text \<open>One asset whose close rises from 100 to 110 three days later.\<close>

definition rising_prices :: dataframe where
  "rising_prices = \<lparr>columns = [''date'', ''asset'', ''close''],
     rows = [price_row 0 ''BTC'' 100, price_row 1 ''BTC'' 100,
             price_row 2 ''BTC'' 100, price_row 3 ''BTC'' 110]\<rparr>"

section \<open>Series reductions\<close>

text \<open>\<open>Series.mean()\<close>, \<open>max()\<close>, \<open>min()\<close> and \<open>std()\<close> skip NaN; the mean, maximum
  and minimum of no value are NaN, and the sample standard deviation (\<open>ddof=1\<close>) of
  fewer than two values is NaN.\<close>

definition dropna_fl :: "fl list \<Rightarrow> fl list" where
  "dropna_fl xs = filter (\<lambda>x. \<not> fl_isna x) xs"

definition series_mean :: "fl list \<Rightarrow> fl" where
  "series_mean xs =
     (let obs = dropna_fl xs
      in if obs = [] then NaN else fdiv (fsum obs) (Fin (real (length obs))))"

definition fmax :: "fl \<Rightarrow> fl \<Rightarrow> fl" where
  "fmax a b = (if flt a b then b else a)"

definition fmin :: "fl \<Rightarrow> fl \<Rightarrow> fl" where
  "fmin a b = (if flt b a then b else a)"

definition series_max :: "fl list \<Rightarrow> fl" where
  "series_max xs = (case dropna_fl xs of [] \<Rightarrow> NaN | y # ys \<Rightarrow> foldl fmax y ys)"

definition series_min :: "fl list \<Rightarrow> fl" where
  "series_min xs = (case dropna_fl xs of [] \<Rightarrow> NaN | y # ys \<Rightarrow> foldl fmin y ys)"

fun fsqrt :: "fl \<Rightarrow> fl" where
  "fsqrt NaN = NaN"
| "fsqrt NInf = NaN"
| "fsqrt PInf = PInf"
| "fsqrt (Fin a) = (if a < 0 then NaN else Fin (sqrt a))"

definition series_std :: "fl list \<Rightarrow> fl" where
  "series_std xs =
     (let obs = dropna_fl xs; n = length obs; m = fdiv (fsum obs) (Fin (real n))
      in if n < 2 then NaN
         else fsqrt (fdiv (fsum (map (\<lambda>x. fmul (fsub x m) (fsub x m)) obs))
                       (Fin (real (n - 1)))))"

section \<open>Feature Composer: lag-window merges\<close>

text \<open>The values of one column of some rows, as floats.\<close>

definition col_values :: "row list \<Rightarrow> string \<Rightarrow> fl list" where
  "col_values rs c = map (\<lambda>r. num (cells r c)) rs"

text \<open>The \<open>for idx, row in df_merged.iterrows()\<close> loops build one dict of features per
  row and stop at the first exception.\<close>

fun collect :: "(row \<Rightarrow> error + 'a) \<Rightarrow> row list \<Rightarrow> error + 'a list" where
  "collect f [] = Inr []"
| "collect f (r # rs) =
     (case f r of
        Inl e \<Rightarrow> Inl e
      | Inr x \<Rightarrow> (case collect f rs of Inl e \<Rightarrow> Inl e | Inr xs \<Rightarrow> Inr (x # xs)))"

text \<open>\<open>pd.concat([df_merged, pd.DataFrame(features)], axis=1)\<close>: the technical frame
  carries the default index \<open>0..n-1\<close> (it was read from a CSV file), so row \<open>i\<close>
  receives the \<open>i\<close>-th dict. The new columns are the keys of the dicts; an empty list
  of dicts adds no column.\<close>

definition add_features :: "row \<Rightarrow> (string \<times> cell) list \<Rightarrow> row" where
  "add_features r feats =
     r\<lparr>cells := (\<lambda>c. case map_of feats c of Some v \<Rightarrow> v | None \<Rightarrow> cells r c)\<rparr>"

definition concat_features :: "dataframe \<Rightarrow> (string \<times> cell) list list \<Rightarrow> dataframe" where
  "concat_features df feats =
     \<lparr>columns = columns df @ (case feats of [] \<Rightarrow> [] | f # fs \<Rightarrow> map fst f),
      rows = map2 add_features (rows df) feats\<rparr>"

text \<open>\<open>merge_sentiment_features\<close>: the window of a row holds the market-sentiment rows
  dated from \<open>date - sentiment_lag_days\<close> to \<open>date\<close>, both included.\<close>

definition sentiment_window :: "dataframe \<Rightarrow> int \<Rightarrow> row \<Rightarrow> row list" where
  "sentiment_window ms lag r =
     filter (\<lambda>s. date r - lag \<le> date s \<and> date s \<le> date r) (rows ms)"

definition sentiment_row_features :: "dataframe \<Rightarrow> int \<Rightarrow> row \<Rightarrow> error + (string \<times> cell) list"
  where
  "sentiment_row_features ms lag r =
     (if ''date'' \<notin> set (columns ms) then Inl (KeyError ''date'')
      else
        let w = sentiment_window ms lag r in
        if 0 < length w then
          (if ''sentiment_mean'' \<notin> set (columns ms) then Inl (KeyError ''sentiment_mean'')
           else if ''sentiment_std'' \<notin> set (columns ms) then Inl (KeyError ''sentiment_std'')
           else if ''stress_index'' \<notin> set (columns ms) then Inl (KeyError ''stress_index'')
           else Inr
             [(''sentiment_mean_7d'', F (series_mean (col_values w ''sentiment_mean''))),
              (''sentiment_std_7d'', F (series_mean (col_values w ''sentiment_std''))),
              (''sentiment_trend_7d'',
                 if 1 < length w
                 then F (fsub (last (col_values w ''sentiment_mean''))
                              (hd (col_values w ''sentiment_mean'')))
                 else I 0),
              (''stress_index_7d'', F (series_mean (col_values w ''stress_index'')))])
        else Inr
          [(''sentiment_mean_7d'', I 0),
           (''sentiment_std_7d'', I 0),
           (''sentiment_trend_7d'', I 0),
           (''stress_index_7d'', I 0)])"

definition merge_sentiment_features ::
  "dataframe \<Rightarrow> dataframe option \<Rightarrow> int \<Rightarrow> error + dataframe" where
  "merge_sentiment_features df_technical df_market_sentiment sentiment_lag_days =
     (case df_market_sentiment of
        None \<Rightarrow> Inr df_technical
      | Some ms \<Rightarrow>
          (case collect (sentiment_row_features ms sentiment_lag_days) (rows df_technical) of
             Inl e \<Rightarrow> Inl e
           | Inr feats \<Rightarrow> Inr (concat_features df_technical feats)))"

text \<open>\<open>merge_google_trends\<close>: the window of a row holds the search-interest rows of the
  row's asset dated from \<open>date - trend_lag_days\<close> to \<open>date\<close>.\<close>

definition trends_window :: "dataframe \<Rightarrow> int \<Rightarrow> row \<Rightarrow> row list" where
  "trends_window tr lag r =
     filter (\<lambda>s. asset s = asset r \<and> date r - lag \<le> date s \<and> date s \<le> date r) (rows tr)"

definition trends_row_features :: "dataframe \<Rightarrow> int \<Rightarrow> row \<Rightarrow> error + (string \<times> cell) list"
  where
  "trends_row_features tr lag r =
     (if ''asset'' \<notin> set (columns tr) then Inl (KeyError ''asset'')
      else if ''date'' \<notin> set (columns tr) then Inl (KeyError ''date'')
      else
        let w = trends_window tr lag r in
        if 0 < length w then
          (if ''interest'' \<notin> set (columns tr) then Inl (KeyError ''interest'')
           else Inr
             [(''trends_interest_mean_7d'', F (series_mean (col_values w ''interest''))),
              (''trends_interest_max_7d'', F (series_max (col_values w ''interest''))),
              (''trends_interest_min_7d'', F (series_min (col_values w ''interest''))),
              (''trends_interest_std_7d'', F (series_std (col_values w ''interest''))),
              (''trends_interest_trend_7d'',
                 if 1 < length w
                 then F (fsub (last (col_values w ''interest''))
                              (hd (col_values w ''interest'')))
                 else I 0),
              (''trends_interest_current'',
                 if 0 < length w then F (last (col_values w ''interest'')) else I 50)])
        else Inr
          [(''trends_interest_mean_7d'', I 50),
           (''trends_interest_max_7d'', I 50),
           (''trends_interest_min_7d'', I 50),
           (''trends_interest_std_7d'', I 0),
           (''trends_interest_trend_7d'', I 0),
           (''trends_interest_current'', I 50)])"

definition merge_google_trends ::
  "dataframe \<Rightarrow> dataframe option \<Rightarrow> int \<Rightarrow> error + dataframe" where
  "merge_google_trends df_technical df_trends trend_lag_days =
     (case df_trends of
        None \<Rightarrow> Inr df_technical
      | Some tr \<Rightarrow>
          (case collect (trends_row_features tr trend_lag_days) (rows df_technical) of
             Inl e \<Rightarrow> Inl e
           | Inr feats \<Rightarrow> Inr (concat_features df_technical feats)))"

definition SENTIMENT_LAG_DAYS :: int where
  "SENTIMENT_LAG_DAYS = 7"

subsection \<open>Sample auxiliary frames\<close>

text \<open>Market sentiment for days 20 and 21 only; search interest for BTC on day 1 only.\<close>

definition demo_sentiment :: dataframe where
  "demo_sentiment =
     \<lparr>columns = [''date'', ''sentiment_mean'', ''sentiment_std'', ''sentiment_min'',
                  ''sentiment_max'', ''sentiment_balance'', ''stress_index''],
      rows = [\<lparr>date = 20, asset = [], cells = (\<lambda>_. F NaN)
                (''sentiment_mean'' := F (Fin 0.5), ''sentiment_std'' := F NaN,
                 ''stress_index'' := F (Fin 0))\<rparr>,
              \<lparr>date = 21, asset = [], cells = (\<lambda>_. F NaN)
                (''sentiment_mean'' := F (Fin 0.25), ''sentiment_std'' := F (Fin 0.1),
                 ''stress_index'' := F (Fin 10))\<rparr>]\<rparr>"

definition demo_trends :: dataframe where
  "demo_trends =
     \<lparr>columns = [''date'', ''asset'', ''interest''],
      rows = [\<lparr>date = 1, asset = ''BTC'', cells = (\<lambda>_. F NaN)(''interest'' := F (Fin 80))\<rparr>]\<rparr>"

section \<open>Indicator Engine: the per-asset loop\<close>

text \<open>\<open>Series.rolling(window=w).std()\<close>: the sample standard deviation (\<open>ddof=1\<close>) of a
  full window of values that are not NaN, NaN otherwise.\<close>

definition rolling_std_at :: "fl list \<Rightarrow> nat \<Rightarrow> nat \<Rightarrow> fl" where
  "rolling_std_at xs w i =
     (let obs = filter (\<lambda>x. \<not> fl_isna x) (window xs w i)
      in if Suc i < w \<or> length obs < w then NaN else series_std obs)"

definition rolling_std :: "fl list \<Rightarrow> nat \<Rightarrow> fl list" where
  "rolling_std xs w = map (rolling_std_at xs w) [0..<length xs]"

text \<open>\<open>Series.ewm(span=s, adjust=False).mean()\<close>: with \<open>alpha = 2 / (s + 1)\<close> the
  average starts at the first observation and moves by
  \<open>y := ((1 - alpha) * y + alpha * x)\<close>; a NaN input repeats the last average and lets
  the old weight decay once more.\<close>

fun ewm_from :: "real \<Rightarrow> fl \<Rightarrow> real \<Rightarrow> fl list \<Rightarrow> fl list" where
  "ewm_from alpha weighted old_wt [] = []"
| "ewm_from alpha weighted old_wt (cur # rest) =
     (if weighted \<noteq> NaN then
        (if cur \<noteq> NaN then
           (let ow = old_wt * (1 - alpha);
                w = (if weighted \<noteq> cur
                     then fdiv (fadd (fmul (Fin ow) weighted) (fmul (Fin alpha) cur))
                               (Fin (ow + alpha))
                     else weighted)
            in w # ewm_from alpha w 1 rest)
         else weighted # ewm_from alpha weighted (old_wt * (1 - alpha)) rest)
      else if cur \<noteq> NaN then cur # ewm_from alpha cur old_wt rest
      else NaN # ewm_from alpha weighted old_wt rest)"

definition ewm_mean :: "fl list \<Rightarrow> nat \<Rightarrow> fl list" where
  "ewm_mean xs span_days =
     (case xs of [] \<Rightarrow> [] | x # rest \<Rightarrow> x # ewm_from (2 / (real span_days + 1)) x 1 rest)"

text \<open>\<open>np.sign\<close>, \<open>fillna(0)\<close> and \<open>cumsum\<close>.\<close>

fun fsign :: "fl \<Rightarrow> fl" where
  "fsign NaN = NaN"
| "fsign NInf = Fin (- 1)"
| "fsign PInf = Fin 1"
| "fsign (Fin a) = Fin (sgn a)"

definition fillna0 :: "fl list \<Rightarrow> fl list" where
  "fillna0 xs = map (\<lambda>x. if fl_isna x then Fin 0 else x) xs"

fun cumsum_from :: "fl \<Rightarrow> fl list \<Rightarrow> fl list" where
  "cumsum_from acc [] = []"
| "cumsum_from acc (x # xs) = fadd acc x # cumsum_from (fadd acc x) xs"

definition cumsum :: "fl list \<Rightarrow> fl list" where
  "cumsum xs = cumsum_from (Fin 0) xs"

text \<open>The indicator functions of \<open>4_technical_indicators.py\<close> and its \<open>PARAMS\<close>.\<close>

definition calculate_macd :: "fl list \<Rightarrow> nat \<Rightarrow> nat \<Rightarrow> nat \<Rightarrow> fl list \<times> fl list \<times> fl list"
  where
  "calculate_macd series fast slow signal =
     (let ema_fast = ewm_mean series fast;
          ema_slow = ewm_mean series slow;
          macd = map2 fsub ema_fast ema_slow;
          signal_line = ewm_mean macd signal;
          histogram = map2 fsub macd signal_line
      in (macd, signal_line, histogram))"

definition calculate_bollinger_bands :: "fl list \<Rightarrow> nat \<Rightarrow> real \<Rightarrow> fl list \<times> fl list \<times> fl list"
  where
  "calculate_bollinger_bands series period std_dev =
     (let middle_band = rolling_mean series period;
          std = rolling_std series period;
          upper_band = map2 (\<lambda>m s. fadd m (fmul s (Fin std_dev))) middle_band std;
          lower_band = map2 (\<lambda>m s. fsub m (fmul s (Fin std_dev))) middle_band std
      in (upper_band, middle_band, lower_band))"

definition calculate_volatility :: "fl list \<Rightarrow> nat \<Rightarrow> fl list" where
  "calculate_volatility series period =
     map (\<lambda>s. fmul s (Fin (sqrt 252))) (rolling_std (pct_change series 1) period)"

definition on_balance_volume :: "fl list \<Rightarrow> fl list \<Rightarrow> fl list" where
  "on_balance_volume volume close =
     cumsum (fillna0 (map2 fmul (map fsign (diff close)) volume))"

definition rsi_period :: nat where "rsi_period = 14"
definition macd_fast :: nat where "macd_fast = 12"
definition macd_slow :: nat where "macd_slow = 26"
definition macd_signal :: nat where "macd_signal = 9"
definition bollinger_period :: nat where "bollinger_period = 20"
definition bollinger_std :: real where "bollinger_std = 2"
definition ma_short :: nat where "ma_short = 7"
definition ma_medium :: nat where "ma_medium = 30"
definition ma_long :: nat where "ma_long = 90"
definition volume_ma :: nat where "volume_ma = 20"

text \<open>The columns the loop body assigns to \<open>df_asset\<close>, in the order of assignment, each
  computed from the asset's close and volume series.\<close>

definition indicator_columns :: "fl list \<Rightarrow> fl list \<Rightarrow> (string \<times> cell list) list" where
  "indicator_columns close volume =
     (let (macd, signal, hist) = calculate_macd close macd_fast macd_slow macd_signal;
          (bb_upper, bb_middle, bb_lower) =
             calculate_bollinger_bands close bollinger_period bollinger_std;
          ma_s = rolling_mean close ma_short;
          ma_m = rolling_mean close ma_medium;
          ma_l = rolling_mean close ma_long;
          vol_ma = rolling_mean volume volume_ma
      in [(''rsi'', map F (calculate_rsi close rsi_period)),
          (''macd'', map F macd),
          (''macd_signal'', map F signal),
          (''macd_histogram'', map F hist),
          (''bb_upper'', map F bb_upper),
          (''bb_middle'', map F bb_middle),
          (''bb_lower'', map F bb_lower),
          (''bb_width'', map F (map2 fdiv (map2 fsub bb_upper bb_lower) bb_middle)),
          (''bb_position'',
             map F (map2 fdiv (map2 fsub close bb_lower) (map2 fsub bb_upper bb_lower))),
          (''ma_7'', map F ma_s),
          (''ma_30'', map F ma_m),
          (''ma_90'', map F ma_l),
          (''ma_cross_short_medium'', map2 (\<lambda>a b. I (if fgt a b then 1 else 0)) ma_s ma_m),
          (''volatility'', map F (calculate_volatility close 20)),
          (''returns_1d'', map F (pct_change close 1)),
          (''returns_7d'', map F (pct_change close 7)),
          (''returns_30d'', map F (pct_change close 30)),
          (''volume_ma'', map F vol_ma),
          (''volume_ratio'', map F (map2 fdiv volume vol_ma)),
          (''obv'', map F (on_balance_volume volume close)),
          (''momentum_7d'', map F (map2 fsub close (shift close 7))),
          (''momentum_30d'', map F (map2 fsub close (shift close 30))),
          (''dist_from_ma_short'',
             map F (map2 (\<lambda>c m. fmul (fsub (fdiv c m) (Fin 1)) (Fin 100)) close ma_s)),
          (''dist_from_ma_medium'',
             map F (map2 (\<lambda>c m. fmul (fsub (fdiv c m) (Fin 1)) (Fin 100)) close ma_m))])"

definition add_indicators :: "dataframe \<Rightarrow> error + dataframe" where
  "add_indicators df_asset =
     (if ''close'' \<notin> set (columns df_asset) then Inl (KeyError ''close'')
      else if ''volume'' \<notin> set (columns df_asset) then Inl (KeyError ''volume'')
      else Inr (fold (\<lambda>(name, vals) d. set_column d name vals)
                  (indicator_columns (column df_asset ''close'') (column df_asset ''volume''))
                  df_asset))"

text \<open>\<open>Series.unique()\<close>: the distinct values in order of first appearance.\<close>

definition unique :: "'a list \<Rightarrow> 'a list" where
  "unique xs = rev (remdups (rev xs))"

text \<open>\<open>df[df["asset"] == asset].copy().sort_values("date")\<close>.\<close>

definition asset_frame :: "dataframe \<Rightarrow> string \<Rightarrow> dataframe" where
  "asset_frame df a =
     \<lparr>columns = columns df, rows = sort_key date (filter (\<lambda>r. asset r = a) (rows df))\<rparr>"

text \<open>The loop over the assets: an asset with fewer than 100 rows is skipped with a
  printed warning, the others are appended to \<open>all_features\<close>.\<close>

fun technical_loop :: "dataframe \<Rightarrow> string list \<Rightarrow> error + dataframe list" where
  "technical_loop df [] = Inr []"
| "technical_loop df (a # as) =
     (let df_asset = asset_frame df a in
      if length (rows df_asset) < 100 then technical_loop df as
      else (case add_indicators df_asset of
              Inl e \<Rightarrow> Inl e
            | Inr f \<Rightarrow> (case technical_loop df as of
                          Inl e \<Rightarrow> Inl e
                        | Inr fs \<Rightarrow> Inr (f # fs))))"

text \<open>\<open>pd.concat(frames, ignore_index=True)\<close> raises ValueError on an empty list.\<close>

definition pd_concat :: "dataframe list \<Rightarrow> error + dataframe" where
  "pd_concat frames =
     (if frames = [] then Inl (ValueError ''No objects to concatenate'')
      else Inr \<lparr>columns = unique (concat (map columns frames)),
                rows = concat (map rows frames)\<rparr>)"

definition calculate_technical_features :: "dataframe \<Rightarrow> error + dataframe" where
  "calculate_technical_features df =
     (case technical_loop df (unique (map asset (rows df))) of
        Inl e \<Rightarrow> Inl e
      | Inr all_features \<Rightarrow> pd_concat all_features)"

text \<open>The number of rows of an asset, and the key of a row.\<close>

definition observations :: "dataframe \<Rightarrow> string \<Rightarrow> nat" where
  "observations df a = length (filter (\<lambda>r. asset r = a) (rows df))"

definition row_key :: "row \<Rightarrow> string \<times> int" where
  "row_key r = (asset r, date r)"

subsection \<open>Sample history\<close>

text \<open>BTC with 100 daily bars and ETH with 50, ETH first.\<close>

definition bar :: "string \<Rightarrow> nat \<Rightarrow> row" where
  "bar a d = \<lparr>date = int d, asset = a,
     cells = (\<lambda>_. F NaN)(''close'' := F (Fin 100), ''volume'' := F (Fin 10))\<rparr>"

definition demo_history :: dataframe where
  "demo_history =
     \<lparr>columns = [''date'', ''asset'', ''asset_type'', ''open'', ''high'', ''low'', ''close'',
                  ''volume''],
      rows = map (bar ''ETH'') [0..<50] @ map (bar ''BTC'') [0..<100]\<rparr>"

section \<open>Sentiment Aggregator\<close>










subsection \<open>Sample articles\<close>



section \<open>Dataset Finalizer\<close>

text \<open>\<open>finalize_dataset(df)\<close> of \<open>5_feature_engineering.py\<close>.\<close>

definition startswith :: "string \<Rightarrow> string \<Rightarrow> bool" where
  "startswith s p = (take (length p) s = p)"

text \<open>\<open>df.dropna(subset=cols)\<close> keeps the rows with no missing cell in \<open>cols\<close>.\<close>

definition dropna_rows :: "string list \<Rightarrow> row list \<Rightarrow> row list" where
  "dropna_rows cols rs = filter (\<lambda>r. list_all (\<lambda>c. \<not> isna (cells r c)) cols) rs"

text \<open>\<open>df.loc[mask, col] = values\<close>: the rows under the mask take the values in order,
  the others stay.\<close>

fun scatter :: "(row \<Rightarrow> bool) \<Rightarrow> string \<Rightarrow> row list \<Rightarrow> cell list \<Rightarrow> row list" where
  "scatter sel c [] vs = []"
| "scatter sel c (r # rs) vs =
     (if sel r then
        (case vs of
           [] \<Rightarrow> r # scatter sel c rs []
         | v # vs' \<Rightarrow> r\<lparr>cells := (cells r)(c := v)\<rparr> # scatter sel c rs vs')
      else r # scatter sel c rs vs)"

text \<open>One pass of the loop \<open>for asset in df_final["asset"].unique()\<close>: within the rows
  of the asset every feature column is forward-filled and then backward-filled.\<close>

definition fill_column :: "string \<Rightarrow> string \<Rightarrow> row list \<Rightarrow> row list" where
  "fill_column a c rs =
     scatter (\<lambda>r. asset r = a) c rs
       (bfill isna (ffill isna (map (\<lambda>r. cells r c) (filter (\<lambda>r. asset r = a) rs))))"

definition fill_asset :: "string list \<Rightarrow> string \<Rightarrow> row list \<Rightarrow> row list" where
  "fill_asset feature_cols a rs = fold (fill_column a) feature_cols rs"

definition non_feature_cols :: "string list" where
  "non_feature_cols = [''date'', ''asset'', ''asset_type'', ''open'', ''high'', ''low'',
     ''close'', ''volume'', ''market_position'']"

definition meta_cols :: "string list" where
  "meta_cols = [''date'', ''asset'', ''asset_type'']"

definition price_cols :: "string list" where
  "price_cols = [''open'', ''high'', ''low'', ''close'', ''volume'']"

definition finalize_dataset :: "dataframe \<Rightarrow> error + dataframe" where
  "finalize_dataset df =
     (let target_cols = filter (\<lambda>c. startswith c ''target_'') (columns df);
          rows1 = dropna_rows target_cols (rows df);
          feature_cols = filter (\<lambda>c. c \<notin> set non_feature_cols \<and> \<not> startswith c ''target_'')
                           (columns df)
      in if ''asset'' \<notin> set (columns df) then Inl (KeyError ''asset'')
         else
           let rows2 = fold (fill_asset feature_cols) (unique (map asset rows1)) rows1;
               rows3 = dropna_rows feature_cols rows2;
               ordered_cols = meta_cols @ price_cols @
                 filter (\<lambda>c. c \<notin> set (meta_cols @ price_cols @ target_cols)) (columns df) @
                 target_cols
           in (case find (\<lambda>c. c \<notin> set (columns df)) ordered_cols of
                 Some c \<Rightarrow> Inl (KeyError c)
               | None \<Rightarrow> Inr \<lparr>columns = ordered_cols, rows = sort_key row_key rows3\<rparr>))"

subsection \<open>Sample feature frame\<close>

text \<open>Five rows. ETH on day 2 has no \<open>rsi\<close> (filled from day 1) and no
  \<open>market_position\<close>; BTC on day 1 appears twice; ETH on day 3 has no target.\<close>

definition feature_row :: "int \<Rightarrow> string \<Rightarrow> fl \<Rightarrow> cell \<Rightarrow> fl \<Rightarrow> row" where
  "feature_row d a rsi position target =
     \<lparr>date = d, asset = a,
      cells = (\<lambda>_. F (Fin 1))
        (''asset_type'' := S ''crypto'', ''rsi'' := F rsi, ''market_position'' := position,
         ''target_return_3d'' := F target)\<rparr>"

definition demo_features :: dataframe where
  "demo_features =
     \<lparr>columns = [''date'', ''asset'', ''asset_type'', ''open'', ''high'', ''low'', ''close'',
                  ''volume'', ''rsi'', ''target_return_3d'', ''market_position''],
      rows = [feature_row 1 ''ETH'' (Fin 40) (S ''neutral'') (Fin 0.1),
              feature_row 2 ''ETH'' NaN (F NaN) (Fin 0.2),
              feature_row 3 ''ETH'' (Fin 60) (S ''neutral'') NaN,
              feature_row 1 ''BTC'' (Fin 50) (S ''neutral'') (Fin 0.3),
              feature_row 1 ''BTC'' (Fin 50) (S ''neutral'') (Fin 0.3)]\<rparr>"

text \<open>Two row lists with the same keys that agree on every column outside a given
  list: what the filling loop preserves.\<close>

definition same_outside :: "string list \<Rightarrow> row list \<Rightarrow> row list \<Rightarrow> bool" where
  "same_outside fc rs rs' \<longleftrightarrow>
     map row_key rs' = map row_key rs \<and>
     (\<forall>c. c \<notin> set fc \<longrightarrow> map (\<lambda>r. cells r c) rs' = map (\<lambda>r. cells r c) rs)"

section \<open>Facts about Series operations\<close>

lemma fadd_NaN_right [simp]: "fadd x NaN = NaN"
  by (cases x) auto

lemma fdiv_NaN_right [simp]: "fdiv x NaN = NaN"
  by (cases x) auto

lemma length_shift [simp]: "length (shift xs p) = length xs"
  by (auto simp: shift_def Let_def)

lemma length_ffill_from [simp]: "length (ffill_from na prev xs) = length xs"
  by (induction xs arbitrary: prev) auto

lemma length_ffill [simp]: "length (ffill na xs) = length xs"
  by (cases xs) auto

lemma length_pct_change [simp]: "length (pct_change xs p) = length xs"
  by (simp add: pct_change_def Let_def)

lemma str_int_3: "str_int 3 = ''3''"
  by (simp add: str_int_def str_nat.simps)

lemma str_int_7: "str_int 7 = ''7''"
  by (simp add: str_int_def str_nat.simps)

lemma str_int_14: "str_int 14 = ''14''"
  by (simp add: str_int_def str_nat.simps)

section \<open>Facts about data frames\<close>

lemma length_set_column:
  "length vals = length (rows df) \<Longrightarrow> length (rows (set_column df name vals)) = length (rows df)"
  by (simp add: set_column_def)

lemma nth_set_column:
  "length vals = length (rows df) \<Longrightarrow> i < length (rows df) \<Longrightarrow>
   rows (set_column df name vals) ! i =
     (rows df ! i)\<lparr>cells := (cells (rows df ! i))(name := vals ! i)\<rparr>"
  by (simp add: set_column_def)

lemma length_groupby_transform [simp]:
  "length (groupby_transform col f rs) = length rs"
  by (simp add: groupby_transform_def)

section \<open>Facts about the Label Generator\<close>

lemma threshold_pos: "0 < threshold p"
  by (simp add: threshold_def)

lemma flt_neg_not_fgt: "0 < t \<Longrightarrow> flt x (Fin (- t)) \<Longrightarrow> \<not> fgt x (Fin t)"
  by (cases x) (auto simp: fgt_def)

lemma return_col_neq_direction_col [simp]:
  "target_return_col p \<noteq> target_direction_col q"
  "target_direction_col q \<noteq> target_return_col p"
  by (simp_all add: target_return_col_def target_direction_col_def)

lemma close_neq_target_col [simp]:
  "''close'' \<noteq> target_return_col p" "''close'' \<noteq> target_direction_col p"
  by (simp_all add: target_return_col_def target_direction_col_def)

lemma forward_cols_distinct [simp]:
  "target_return_col 3 \<noteq> target_return_col 7" "target_return_col 3 \<noteq> target_return_col 14"
  "target_return_col 7 \<noteq> target_return_col 14"
  "target_return_col 7 \<noteq> target_return_col 3" "target_return_col 14 \<noteq> target_return_col 3"
  "target_return_col 14 \<noteq> target_return_col 7"
  "target_direction_col 3 \<noteq> target_direction_col 7"
  "target_direction_col 3 \<noteq> target_direction_col 14"
  "target_direction_col 7 \<noteq> target_direction_col 14"
  "target_direction_col 7 \<noteq> target_direction_col 3"
  "target_direction_col 14 \<noteq> target_direction_col 3"
  "target_direction_col 14 \<noteq> target_direction_col 7"
  by (simp_all add: target_return_col_def target_direction_col_def str_int_3 str_int_7 str_int_14)

lemma create_targets_step_length:
  assumes "create_targets_step df p = Inr df'"
  shows "length (rows df') = length (rows df)"
  using assms
  by (auto simp: create_targets_step_def Let_def length_set_column column_def split: if_splits)

lemma create_targets_step_nth:
  assumes "create_targets_step df p = Inr df'" and "i < length (rows df)"
  shows "rows df' ! i = (rows df ! i)\<lparr>cells := (cells (rows df ! i))
            (target_return_col p :=
               F (groupby_transform ''close'' (\<lambda>x. pct_change x (- p)) (rows df) ! i),
             target_direction_col p :=
               I (if fgt (groupby_transform ''close'' (\<lambda>x. pct_change x (- p)) (rows df) ! i)
                         (Fin (threshold p)) then 1 else 0))\<rparr>"
  using assms flt_neg_not_fgt [OF threshold_pos, of _ p]
  by (auto simp: create_targets_step_def Let_def length_set_column nth_set_column column_def
      split: if_splits)

lemma create_targets_step_close:
  assumes "create_targets_step df p = Inr df'"
  shows "map (\<lambda>r. (asset r, cells r ''close'')) (rows df') =
         map (\<lambda>r. (asset r, cells r ''close'')) (rows df)"
proof (rule nth_equalityI)
  show "length (map (\<lambda>r. (asset r, cells r ''close'')) (rows df')) =
        length (map (\<lambda>r. (asset r, cells r ''close'')) (rows df))"
    by (simp add: create_targets_step_length [OF assms])
next
  fix i assume "i < length (map (\<lambda>r. (asset r, cells r ''close'')) (rows df'))"
  then have i: "i < length (rows df)"
    by (simp add: create_targets_step_length [OF assms])
  then show "map (\<lambda>r. (asset r, cells r ''close'')) (rows df') ! i =
        map (\<lambda>r. (asset r, cells r ''close'')) (rows df) ! i"
    by (simp add: create_targets_step_length [OF assms] create_targets_step_nth [OF assms i])
qed

lemma group_series_cong:
  assumes "map (\<lambda>r. (asset r, cells r col)) rs = map (\<lambda>r. (asset r, cells r col)) rs'"
  shows "group_series col rs a = group_series col rs' a"
proof -
  have "group_series col xs a =
        map (\<lambda>p. num (snd p)) (filter (\<lambda>p. fst p = a) (map (\<lambda>r. (asset r, cells r col)) xs))"
    for xs
    by (simp add: group_series_def filter_map comp_def)
  with assms show ?thesis by simp
qed

lemma group_rank_cong:
  assumes "map (\<lambda>r. (asset r, cells r col)) rs = map (\<lambda>r. (asset r, cells r col)) rs'"
    and "i < length rs"
  shows "group_rank rs i = group_rank rs' i"
proof -
  have len: "length rs' = length rs"
    using arg_cong [OF assms(1), of length] by simp
  have a: "map asset rs = map asset rs'"
    using assms(1) by (auto simp: list_eq_iff_nth_eq)
  have b: "asset (rs ! i) = asset (rs' ! i)"
    using assms len by (auto simp: list_eq_iff_nth_eq)
  have "group_rank xs i = length (filter (\<lambda>b. b = map asset xs ! i) (take i (map asset xs)))"
    if "i < length xs" for xs
    using that by (simp add: group_rank_def take_map filter_map comp_def)
  with assms(2) len a b show ?thesis by simp
qed

lemma groupby_transform_cong:
  assumes "map (\<lambda>r. (asset r, cells r col)) rs = map (\<lambda>r. (asset r, cells r col)) rs'"
  shows "groupby_transform col f rs = groupby_transform col f rs'"
proof -
  have len: "length rs' = length rs"
    using arg_cong [OF assms(1), of length] by simp
  have a: "i < length rs \<Longrightarrow> asset (rs ! i) = asset (rs' ! i)" for i
    using assms len by (auto simp: list_eq_iff_nth_eq)
  show ?thesis
    unfolding groupby_transform_def len
    by (rule map_cong [OF refl])
      (simp add: a group_rank_cong [OF assms] group_series_cong [OF assms])
qed

lemma create_targets_forward_steps:
  assumes "create_targets df FORWARD_PERIODS = Inr out"
  obtains d1 d2 where "create_targets_step df 3 = Inr d1"
    "create_targets_step d1 7 = Inr d2" "create_targets_step d2 14 = Inr out"
  using assms by (auto simp: FORWARD_PERIODS_def split: sum.splits)

lemma create_targets_forward_length:
  assumes "create_targets df FORWARD_PERIODS = Inr out"
  shows "length (rows out) = length (rows df)"
  using assms by (elim create_targets_forward_steps) (simp add: create_targets_step_length)

lemma create_targets_forward_cells:
  assumes run: "create_targets df FORWARD_PERIODS = Inr out"
    and i: "i < length (rows df)" and H: "H \<in> set FORWARD_PERIODS"
  shows "cells (rows out ! i) (target_return_col H) =
           F (groupby_transform ''close'' (\<lambda>x. pct_change x (- H)) (rows df) ! i)"
    and "cells (rows out ! i) (target_direction_col H) =
           I (if fgt (groupby_transform ''close'' (\<lambda>x. pct_change x (- H)) (rows df) ! i)
                     (Fin (threshold H)) then 1 else 0)"
proof -
  from run obtain d1 d2 where s: "create_targets_step df 3 = Inr d1"
    "create_targets_step d1 7 = Inr d2" "create_targets_step d2 14 = Inr out"
    by (rule create_targets_forward_steps)
  note len = create_targets_step_length [OF s(1)] create_targets_step_length [OF s(2)]
  have g1: "groupby_transform ''close'' f (rows d1) = groupby_transform ''close'' f (rows df)" for f
    by (rule groupby_transform_cong [OF create_targets_step_close [OF s(1)]])
  have g2: "groupby_transform ''close'' f (rows d2) = groupby_transform ''close'' f (rows d1)" for f
    by (rule groupby_transform_cong [OF create_targets_step_close [OF s(2)]])
  have i1: "i < length (rows d1)" and i2: "i < length (rows d2)"
    using i len by simp_all
  note n = create_targets_step_nth [OF s(1) i] create_targets_step_nth [OF s(2) i1]
    create_targets_step_nth [OF s(3) i2]
  from H consider "H = 3" | "H = 7" | "H = 14"
    by (auto simp: FORWARD_PERIODS_def)
  then show "cells (rows out ! i) (target_return_col H) =
           F (groupby_transform ''close'' (\<lambda>x. pct_change x (- H)) (rows df) ! i)"
  proof cases
    case 1 then show ?thesis by (simp add: n g1 g2)
  next
    case 2 then show ?thesis by (simp add: n g1 g2)
  next
    case 3 then show ?thesis by (simp add: n g1 g2)
  qed
  from H consider "H = 3" | "H = 7" | "H = 14"
    by (auto simp: FORWARD_PERIODS_def)
  then show "cells (rows out ! i) (target_direction_col H) =
           I (if fgt (groupby_transform ''close'' (\<lambda>x. pct_change x (- H)) (rows df) ! i)
                     (Fin (threshold H)) then 1 else 0)"
  proof cases
    case 1 then show ?thesis by (simp add: n g1 g2)
  next
    case 2 then show ?thesis by (simp add: n g1 g2)
  next
    case 3 then show ?thesis by (simp add: n g1 g2)
  qed
qed

lemma columns_set_column:
  "c \<in> set (columns df) \<Longrightarrow> c \<in> set (columns (set_column df name vals))"
  by (simp add: set_column_def)

lemma create_targets_step_ok:
  assumes "''close'' \<in> set (columns df)"
  shows "\<exists>df'. create_targets_step df p = Inr df' \<and> ''close'' \<in> set (columns df')"
  using assms unfolding create_targets_step_def Let_def
  by (simp add: columns_set_column)

lemma create_targets_forward_ok:
  assumes "''close'' \<in> set (columns df)"
  shows "\<exists>out. create_targets df FORWARD_PERIODS = Inr out"
proof -
  from create_targets_step_ok [OF assms, of 3] obtain d1
    where 1: "create_targets_step df 3 = Inr d1" "''close'' \<in> set (columns d1)" by blast
  from create_targets_step_ok [OF 1(2), of 7] obtain d2
    where 2: "create_targets_step d1 7 = Inr d2" "''close'' \<in> set (columns d2)" by blast
  from create_targets_step_ok [OF 2(2), of 14] obtain d3
    where 3: "create_targets_step d2 14 = Inr d3" by blast
  show ?thesis by (simp add: FORWARD_PERIODS_def 1 2 3)
qed

lemma demo_returns_3:
  "groupby_transform ''close'' (\<lambda>x. pct_change x (- 3)) (rows demo_prices)
   = [Fin (3/100), Fin (15/1000), NaN, NaN, NaN, NaN, NaN, NaN]"
  by (simp add: demo_prices_def price_row_def groupby_transform_def group_series_def
      group_rank_def pct_change_def shift_def fl_isna_def fsub_def upt_rec)

lemma rising_returns_3:
  "groupby_transform ''close'' (\<lambda>x. pct_change x (- 3)) (rows rising_prices)
   = [Fin (- 1 / 11), NaN, NaN, NaN]"
  by (simp add: rising_prices_def price_row_def groupby_transform_def group_series_def
      group_rank_def pct_change_def shift_def fl_isna_def fsub_def upt_rec)

subsection \<open>Direction labels\<close>

text \<open>
  Claim C2. After \<open>create_targets\<close> has run over the horizons 3, 7 and 14, every row
  has \<open>target_direction_Hd = 1\<close> exactly when its \<open>target_return_Hd\<close> is strictly
  greater than the threshold of the horizon, and \<open>0\<close> otherwise: a return equal to the
  threshold, a return below the negated threshold and a return inside the band are all
  labelled 0. The threshold is 0.015 below 7 days, 0.02 from 7 to 13 days and 0.03 from
  14 days on.
\<close>

theorem create_targets_direction_iff_above_threshold:
  assumes "create_targets df FORWARD_PERIODS = Inr out"
    and "H \<in> set FORWARD_PERIODS" and "r \<in> set (rows out)"
  shows "(cells r (target_direction_col H) = I 1 \<longleftrightarrow>
            fgt (num (cells r (target_return_col H))) (Fin (threshold H))) \<and>
         (cells r (target_direction_col H) = I 0 \<longleftrightarrow>
            \<not> fgt (num (cells r (target_return_col H))) (Fin (threshold H))) \<and>
         (num (cells r (target_return_col H)) = Fin (threshold H) \<longrightarrow>
            cells r (target_direction_col H) = I 0) \<and>
         (flt (num (cells r (target_return_col H))) (Fin (- threshold H)) \<longrightarrow>
            cells r (target_direction_col H) = I 0) \<and>
         threshold H = (if H < 7 then 0.015 else if H < 14 then 0.02 else 0.03)"
proof -
  from assms(3) obtain i where i: "i < length (rows out)" and r: "r = rows out ! i"
    by (auto simp: in_set_conv_nth)
  from i have i': "i < length (rows df)"
    by (simp add: create_targets_forward_length [OF assms(1)])
  note c = create_targets_forward_cells [OF assms(1) i' assms(2)]
  have t: "threshold H = (if H < 7 then 0.015 else if H < 14 then 0.02 else 0.03)"
    by (simp add: threshold_def)
  show ?thesis
    using flt_neg_not_fgt [OF threshold_pos, of _ H]
    unfolding r c by (auto simp: t fgt_def)
qed


text \<open>On the sample frame: BTC's day-0 return 0.03 is above 0.015 and is labelled 1;
  ETH's day-0 return is exactly 0.015 and is labelled 0.\<close>

theorem create_targets_direction_iff_above_threshold_witness:
  "\<exists>out. create_targets demo_prices FORWARD_PERIODS = Inr out \<and>
      3 \<in> set FORWARD_PERIODS \<and>
      rows out ! 0 \<in> set (rows out) \<and> rows out ! 1 \<in> set (rows out) \<and>
      num (cells (rows out ! 0) (target_return_col 3)) = Fin 0.03 \<and>
      fgt (num (cells (rows out ! 0) (target_return_col 3))) (Fin (threshold 3)) \<and>
      cells (rows out ! 0) (target_direction_col 3) = I 1 \<and>
      num (cells (rows out ! 1) (target_return_col 3)) = Fin (threshold 3) \<and>
      cells (rows out ! 1) (target_direction_col 3) = I 0"
proof -
  have "''close'' \<in> set (columns demo_prices)"
    by (simp add: demo_prices_def)
  then obtain out where run: "create_targets demo_prices FORWARD_PERIODS = Inr out"
    using create_targets_forward_ok by blast
  have H: "3 \<in> set FORWARD_PERIODS"
    by (simp add: FORWARD_PERIODS_def)
  have len: "length (rows out) = 8"
    by (simp add: create_targets_forward_length [OF run] demo_prices_def)
  have m: "rows out ! 0 \<in> set (rows out)" "rows out ! 1 \<in> set (rows out)"
    by (simp_all add: len)
  have len': "0 < length (rows demo_prices)" "1 < length (rows demo_prices)"
    by (simp_all add: demo_prices_def)
  have r0: "num (cells (rows out ! 0) (target_return_col 3)) = Fin 0.03"
    by (simp add: create_targets_forward_cells(1) [OF run len'(1) H] demo_returns_3)
  have r1: "num (cells (rows out ! 1) (target_return_col 3)) = Fin (threshold 3)"
    using create_targets_forward_cells(1) [OF run len'(2) H]
    by (simp add: demo_returns_3 threshold_def)
  have g: "fgt (Fin 0.03) (Fin (threshold 3))"
    by (simp add: fgt_def threshold_def)
  show ?thesis
    using create_targets_direction_iff_above_threshold [OF run H m(1)]
      create_targets_direction_iff_above_threshold [OF run H m(2)] run H m r0 r1 g
    by (intro exI [of _ out]) (simp add: threshold_def fgt_def)
qed

text \<open>
  Claim C10. For each horizon every row's \<open>target_direction_Hd\<close> is the integer 0 or 1,
  and a row whose \<open>target_return_Hd\<close> is NaN is labelled 0.
\<close>

theorem create_targets_direction_is_binary:
  assumes "create_targets df FORWARD_PERIODS = Inr out"
    and "H \<in> set FORWARD_PERIODS" and "r \<in> set (rows out)"
  shows "(cells r (target_direction_col H) = I 0 \<or> cells r (target_direction_col H) = I 1) \<and>
         (isna (cells r (target_return_col H)) \<longrightarrow> cells r (target_direction_col H) = I 0)"
proof -
  from assms(3) obtain i where i: "i < length (rows out)" and r: "r = rows out ! i"
    by (auto simp: in_set_conv_nth)
  from i have i': "i < length (rows df)"
    by (simp add: create_targets_forward_length [OF assms(1)])
  note c = create_targets_forward_cells [OF assms(1) i' assms(2)]
  show ?thesis
    unfolding r c by (simp add: fgt_def)
qed

text \<open>On the sample frame: BTC's day 1 lies within three days of the end of its series,
  its 3-day return is NaN and its label is 0.\<close>

theorem create_targets_direction_is_binary_witness:
  "\<exists>out. create_targets demo_prices FORWARD_PERIODS = Inr out \<and>
      3 \<in> set FORWARD_PERIODS \<and> rows out ! 2 \<in> set (rows out) \<and>
      asset (rows out ! 2) = ''BTC'' \<and> date (rows out ! 2) = 1 \<and>
      isna (cells (rows out ! 2) (target_return_col 3)) \<and>
      cells (rows out ! 2) (target_direction_col 3) = I 0"
proof -
  have "''close'' \<in> set (columns demo_prices)"
    by (simp add: demo_prices_def)
  then obtain out where run: "create_targets demo_prices FORWARD_PERIODS = Inr out"
    using create_targets_forward_ok by blast
  have H: "3 \<in> set FORWARD_PERIODS"
    by (simp add: FORWARD_PERIODS_def)
  have len: "length (rows out) = 8"
    by (simp add: create_targets_forward_length [OF run] demo_prices_def)
  have m: "rows out ! 2 \<in> set (rows out)"
    by (simp add: len)
  have len': "2 < length (rows demo_prices)"
    by (simp add: demo_prices_def)
  have r2: "isna (cells (rows out ! 2) (target_return_col 3))"
    by (simp add: create_targets_forward_cells(1) [OF run len' H] demo_returns_3)
  obtain d1 d2 where s: "create_targets_step demo_prices 3 = Inr d1"
    "create_targets_step d1 7 = Inr d2" "create_targets_step d2 14 = Inr out"
    using run by (rule create_targets_forward_steps)
  have l: "2 < length (rows d1)" "2 < length (rows d2)"
    using len' by (simp_all add: create_targets_step_length [OF s(1)]
        create_targets_step_length [OF s(2)])
  have k: "asset (rows out ! 2) = ''BTC''" "date (rows out ! 2) = 1"
    by (simp_all add: create_targets_step_nth [OF s(3) l(2)]
        create_targets_step_nth [OF s(2) l(1)] create_targets_step_nth [OF s(1) len']
        demo_prices_def price_row_def)
  show ?thesis
    using create_targets_direction_is_binary [OF run H m] run H m r2 k
    by (intro exI [of _ out]) simp
qed

subsection \<open>Forward returns\<close>

text \<open>
  Claim C1 states that \<open>target_return_Hd\<close> at row \<open>t\<close> is \<open>close[t+H] / close[t] - 1\<close>.
  The code calls \<open>pct_change(periods=-H)\<close>, which divides by the shifted series: with a
  close of 100 at day 0 and of 110 at day 3, the 3-day return of day 0 is
  \<open>100 / 110 - 1\<close>, not \<open>110 / 100 - 1\<close>, and a rise of ten percent is labelled 0.
\<close>

theorem create_targets_return_divides_by_future_close:
  "\<exists>out. create_targets rising_prices FORWARD_PERIODS = Inr out \<and>
      num (cells (rows rising_prices ! 0) ''close'') = Fin 100 \<and>
      num (cells (rows rising_prices ! 3) ''close'') = Fin 110 \<and>
      cells (rows out ! 0) (target_return_col 3) = F (Fin (100 / 110 - 1)) \<and>
      cells (rows out ! 0) (target_return_col 3) \<noteq> F (Fin (110 / 100 - 1)) \<and>
      cells (rows out ! 0) (target_direction_col 3) = I 0"
proof -
  have "''close'' \<in> set (columns rising_prices)"
    by (simp add: rising_prices_def)
  then obtain out where run: "create_targets rising_prices FORWARD_PERIODS = Inr out"
    using create_targets_forward_ok by blast
  have H: "3 \<in> set FORWARD_PERIODS"
    by (simp add: FORWARD_PERIODS_def)
  have len': "0 < length (rows rising_prices)"
    by (simp add: rising_prices_def)
  have c: "num (cells (rows rising_prices ! 0) ''close'') = Fin 100"
    "num (cells (rows rising_prices ! 3) ''close'') = Fin 110"
    by (simp_all add: rising_prices_def price_row_def)
  show ?thesis
    using run c
    by (intro exI [of _ out])
      (simp add: create_targets_forward_cells [OF run len' H] rising_returns_3 fgt_def
        threshold_def)
qed

lemma ffill_from_no_na: "\<forall>x\<in>set xs. \<not> na x \<Longrightarrow> ffill_from na prev xs = xs"
  by (induction xs arbitrary: prev) auto

lemma ffill_no_na: "\<forall>x\<in>set xs. \<not> na x \<Longrightarrow> ffill na xs = xs"
  by (cases xs) (auto simp: ffill_from_no_na)

lemma shift_back_nth:
  assumes "t < length xs"
  shows "shift xs (- int H) ! t = (if t + H < length xs then xs ! (t + H) else NaN)"
proof (cases "H = 0")
  case True
  with assms show ?thesis by (simp add: shift_def)
next
  case False
  then have "shift xs (- int H) = drop H xs @ replicate (min H (length xs)) NaN"
    by (simp add: shift_def Let_def)
  moreover have "t - (length xs - H) < min H (length xs)" if "\<not> t + H < length xs"
    using that assms by (auto simp: min_def)
  ultimately show ?thesis
    using assms by (auto simp: nth_append add.commute)
qed

lemma fsub_NaN_left [simp]: "fsub NaN y = NaN"
  by (simp add: fsub_def)

text \<open>
  What the return column holds: on a series without missing closes,
  \<open>pct_change(periods=-H)\<close> at row \<open>t\<close> is \<open>close[t] / close[t+H] - 1\<close> when row
  \<open>t+H\<close> exists, and NaN on the last \<open>H\<close> rows.
\<close>

theorem pct_change_negative_period:
  assumes "\<forall>x\<in>set closes. \<not> fl_isna x" and "t < length closes"
  shows "pct_change closes (- int H) ! t =
     (if t + H < length closes
      then fsub (fdiv (closes ! t) (closes ! (t + H))) (Fin 1) else NaN)"
  using assms(2)
  by (simp add: pct_change_def ffill_no_na [OF assms(1)] shift_back_nth)

theorem pct_change_negative_period_witness:
  "pct_change [Fin 100, Fin 100, Fin 100, Fin 110] (- int 3) ! 0 = Fin (100 / 110 - 1) \<and>
   pct_change [Fin 100, Fin 100, Fin 100, Fin 110] (- int 3) ! 1 = NaN"
  using pct_change_negative_period [of "[Fin 100, Fin 100, Fin 100, Fin 110]" 0 3]
    pct_change_negative_period [of "[Fin 100, Fin 100, Fin 100, Fin 110]" 1 3]
  by (simp add: fl_isna_def fsub_def)

section \<open>Facts about RSI\<close>

lemma shift_1_nth:
  "i < length xs \<Longrightarrow> shift xs 1 ! i = (if i = 0 then NaN else xs ! (i - 1))"
  by (auto simp: shift_def Let_def nth_append min_def)

lemma length_diff [simp]: "length (diff xs) = length xs"
  by (simp add: diff_def)

lemma diff_nth:
  "i < length xs \<Longrightarrow> diff xs ! i = fsub (xs ! i) (if i = 0 then NaN else xs ! (i - 1))"
  by (simp add: diff_def shift_1_nth)

lemma nonneg_fin_iff: "nonneg_fin x = (\<exists>a. x = Fin a \<and> 0 \<le> a)"
  by (cases x) auto

lemma diff_fin_or_nan:
  assumes "\<forall>x\<in>set xs. is_fin x" and "d \<in> set (diff xs)"
  shows "d = NaN \<or> is_fin d"
proof -
  from assms(2) obtain i where i: "i < length xs" "d = diff xs ! i"
    by (auto simp: in_set_conv_nth)
  have f: "is_fin (xs ! j)" if "j < length xs" for j
    using assms(1) that by simp
  show ?thesis
  proof (cases "i = 0")
    case True
    with i show ?thesis by (simp add: diff_nth fsub_def)
  next
    case False
    with i have "i - 1 < length xs" by simp
    with False i f [of i] f [of "i - 1"] show ?thesis
      by (cases "xs ! i"; cases "xs ! (i - 1)") (simp_all add: diff_nth fsub_def)
  qed
qed

lemma gain_raw_nonneg:
  assumes "\<forall>x\<in>set xs. is_fin x"
  shows "\<forall>y\<in>set (where_cond (\<lambda>d. fgt d (Fin 0)) (Fin 0) (diff xs)). nonneg_fin y"
proof
  fix y assume "y \<in> set (where_cond (\<lambda>d. fgt d (Fin 0)) (Fin 0) (diff xs))"
  then obtain d where d: "d \<in> set (diff xs)" "y = (if fgt d (Fin 0) then d else Fin 0)"
    by (auto simp: where_cond_def)
  from diff_fin_or_nan [OF assms d(1)] d(2) show "nonneg_fin y"
    by (cases d) (auto simp: nonneg_fin_iff fgt_def)
qed

lemma loss_raw_nonneg:
  assumes "\<forall>x\<in>set xs. is_fin x"
  shows "\<forall>y\<in>set (map fneg (where_cond (\<lambda>d. flt d (Fin 0)) (Fin 0) (diff xs))). nonneg_fin y"
proof
  fix y assume "y \<in> set (map fneg (where_cond (\<lambda>d. flt d (Fin 0)) (Fin 0) (diff xs)))"
  then obtain d where d: "d \<in> set (diff xs)" "y = fneg (if flt d (Fin 0) then d else Fin 0)"
    by (auto simp: where_cond_def)
  from diff_fin_or_nan [OF assms d(1)] d(2) show "nonneg_fin y"
    by (cases d) (auto simp: nonneg_fin_iff)
qed

lemma foldl_fadd_nonneg:
  assumes "\<forall>y\<in>set ys. nonneg_fin y" and "0 \<le> b"
  shows "\<exists>s. foldl fadd (Fin b) ys = Fin s \<and> 0 \<le> s"
  using assms
proof (induction ys arbitrary: b)
  case Nil
  then show ?case by simp
next
  case (Cons y ys)
  from Cons.prems(1) obtain a where a: "y = Fin a" "0 \<le> a"
    by (auto simp: nonneg_fin_iff)
  have "\<exists>s. foldl fadd (Fin (b + a)) ys = Fin s \<and> 0 \<le> s"
    using Cons.prems a by (intro Cons.IH) auto
  then show ?case by (simp add: a)
qed

lemma rolling_mean_at_early: "Suc i < w \<Longrightarrow> rolling_mean_at ys w i = NaN"
  by (simp add: rolling_mean_at_def Let_def)

lemma rolling_mean_at_nonneg:
  assumes ys: "\<forall>y\<in>set ys. nonneg_fin y" and w: "0 < w" "w \<le> Suc i" and i: "i < length ys"
  shows "nonneg_fin (rolling_mean_at ys w i)"
proof -
  have sub: "set (window ys w i) \<subseteq> set ys"
    unfolding window_def by (meson set_take_subset set_drop_subset subset_trans)
  then have nn: "\<forall>y\<in>set (window ys w i). nonneg_fin y"
    using ys by blast
  then have "\<forall>y\<in>set (window ys w i). \<not> fl_isna y"
    by (auto simp: nonneg_fin_iff fl_isna_def)
  then have obs: "filter (\<lambda>x. \<not> fl_isna x) (window ys w i) = window ys w i"
    by simp
  have len: "length (window ys w i) = w"
    using w i by (simp add: window_def)
  from foldl_fadd_nonneg [OF nn, of 0] obtain s where s: "fsum (window ys w i) = Fin s" "0 \<le> s"
    by (auto simp: fsum_def)
  show ?thesis
    using w s by (simp add: rolling_mean_at_def obs len nonneg_fin_iff)
qed

lemma length_rolling_mean [simp]: "length (rolling_mean ys w) = length ys"
  by (simp add: rolling_mean_def)

lemma rolling_mean_nth: "i < length ys \<Longrightarrow> rolling_mean ys w ! i = rolling_mean_at ys w i"
  by (simp add: rolling_mean_def)

lemma length_rsi_gain [simp]: "length (rsi_gain xs p) = length xs"
  by (simp add: rsi_gain_def where_cond_def)

lemma length_rsi_loss [simp]: "length (rsi_loss xs p) = length xs"
  by (simp add: rsi_loss_def where_cond_def)

lemma length_calculate_rsi [simp]: "length (calculate_rsi xs p) = length xs"
  by (simp add: calculate_rsi_def Let_def)

lemma calculate_rsi_nth:
  "i < length xs \<Longrightarrow> calculate_rsi xs p ! i =
     fsub (Fin 100) (fdiv (Fin 100) (fadd (Fin 1) (fdiv (rsi_gain xs p ! i) (rsi_loss xs p ! i))))"
  by (simp add: calculate_rsi_def Let_def)

lemma rsi_gain_early: "i < length xs \<Longrightarrow> Suc i < p \<Longrightarrow> rsi_gain xs p ! i = NaN"
  by (simp add: rsi_gain_def rolling_mean_nth where_cond_def rolling_mean_at_early)

lemma rsi_gain_nonneg:
  assumes "\<forall>x\<in>set xs. is_fin x" "0 < p" "p \<le> Suc i" "i < length xs"
  shows "nonneg_fin (rsi_gain xs p ! i)"
  using assms gain_raw_nonneg [OF assms(1)]
  by (simp add: rsi_gain_def rolling_mean_nth where_cond_def rolling_mean_at_nonneg)

lemma rsi_loss_nonneg:
  assumes "\<forall>x\<in>set xs. is_fin x" "0 < p" "p \<le> Suc i" "i < length xs"
  shows "nonneg_fin (rsi_loss xs p ! i)"
  using assms loss_raw_nonneg [OF assms(1)]
  by (simp add: rsi_loss_def rolling_mean_nth where_cond_def rolling_mean_at_nonneg)

lemma rsi_formula_cases:
  assumes "0 \<le> g" "0 \<le> l"
  shows "fsub (Fin 100) (fdiv (Fin 100) (fadd (Fin 1) (fdiv (Fin g) (Fin l)))) =
     (if l = 0 then (if g = 0 then NaN else Fin 100) else Fin (100 - 100 / (1 + g / l)))"
proof -
  have "1 + g / l \<noteq> 0" if "l \<noteq> 0"
    using assms that by (smt (verit) divide_nonneg_nonneg)
  with assms show ?thesis by (auto simp: fsub_def)
qed

lemma rsi_value_bounds:
  assumes "0 \<le> g" "0 < (l::real)"
  shows "0 \<le> 100 - 100 / (1 + g / l)" "100 - 100 / (1 + g / l) < 100"
proof -
  define t where "t = 1 + g / l"
  have t: "1 \<le> t" using assms by (simp add: t_def)
  then have "100 / t \<le> 100" "0 < 100 / t"
    by (simp_all add: pos_divide_le_eq)
  then have "100 / (1 + g / l) \<le> 100" "0 < 100 / (1 + g / l)"
    by (simp_all add: t_def)
  then show "0 \<le> 100 - 100 / (1 + g / l)" "100 - 100 / (1 + g / l) < 100" by simp_all
qed


lemma calculate_rsi_early:
  assumes "i < length xs" "Suc i < p"
  shows "calculate_rsi xs p ! i = NaN"
  using assms by (simp add: calculate_rsi_nth rsi_gain_early fsub_def)

text \<open>
  Claim C5, as the code has it. On a series of finite closes \<open>calculate_rsi\<close> is NaN on
  the first \<open>period - 1\<close> rows. From row \<open>period - 1\<close> on, the average gain \<open>g\<close> and the
  average loss \<open>l\<close> of the window are finite and not negative, and the RSI is
  \<open>100 - 100 / (1 + g / l)\<close> when \<open>l > 0\<close>, 100 when \<open>l = 0 < g\<close>, and NaN when both are
  0 (no price change in the window). Every RSI cell is NaN or a number in [0, 100].
\<close>

theorem calculate_rsi_warmup_and_range:
  assumes "\<forall>x\<in>set series. is_fin x" and "0 < period" and "i < length series"
  shows "(Suc i < period \<longrightarrow> calculate_rsi series period ! i = NaN) \<and>
         (period \<le> Suc i \<longrightarrow>
            (\<exists>g l. rsi_gain series period ! i = Fin g \<and> rsi_loss series period ! i = Fin l \<and>
               0 \<le> g \<and> 0 \<le> l \<and>
               calculate_rsi series period ! i =
                 (if l = 0 then (if g = 0 then NaN else Fin 100)
                  else Fin (100 - 100 / (1 + g / l))))) \<and>
         (calculate_rsi series period ! i = NaN \<or>
            (\<exists>v. calculate_rsi series period ! i = Fin v \<and> 0 \<le> v \<and> v \<le> 100))"
proof (cases "Suc i < period")
  case True
  then show ?thesis
    using assms(3) by (simp add: calculate_rsi_early)
next
  case False
  then have p: "period \<le> Suc i" by simp
  from rsi_gain_nonneg [OF assms(1,2) p assms(3)] obtain g
    where g: "rsi_gain series period ! i = Fin g" "0 \<le> g"
    by (auto simp: nonneg_fin_iff)
  from rsi_loss_nonneg [OF assms(1,2) p assms(3)] obtain l
    where l: "rsi_loss series period ! i = Fin l" "0 \<le> l"
    by (auto simp: nonneg_fin_iff)
  have v: "calculate_rsi series period ! i =
      (if l = 0 then (if g = 0 then NaN else Fin 100) else Fin (100 - 100 / (1 + g / l)))"
    unfolding calculate_rsi_nth [OF assms(3)] g l
    by (rule rsi_formula_cases [OF g(2) l(2)])
  have r: "calculate_rsi series period ! i = NaN \<or>
      (\<exists>v. calculate_rsi series period ! i = Fin v \<and> 0 \<le> v \<and> v \<le> 100)"
  proof (cases "l = 0")
    case True
    then show ?thesis by (simp add: v)
  next
    case False
    with l have "0 < l" by simp
    from rsi_value_bounds [OF g(2) this] False show ?thesis
      by (simp add: v)
  qed
  from p g l v r show ?thesis by auto
qed

lemma diff_replicate_nth:
  "i < n \<Longrightarrow> diff (replicate n (Fin c)) ! i = (if i = 0 then NaN else Fin 0)"
  by (simp add: diff_nth fsub_def)

lemma where_gain_replicate:
  "where_cond (\<lambda>d. fgt d (Fin 0)) (Fin 0) (diff (replicate n (Fin c))) = replicate n (Fin 0)"
  by (rule nth_equalityI) (simp_all add: where_cond_def diff_replicate_nth fgt_def)

lemma where_loss_replicate:
  "map fneg (where_cond (\<lambda>d. flt d (Fin 0)) (Fin 0) (diff (replicate n (Fin c))))
     = replicate n (Fin 0)"
  by (rule nth_equalityI) (simp_all add: where_cond_def diff_replicate_nth)

lemma rolling_mean_at_zeros:
  assumes "0 < w" "w \<le> Suc i" "i < n"
  shows "rolling_mean_at (replicate n (Fin 0)) w i = Fin 0"
proof -
  have win: "window (replicate n (Fin 0)) w i = replicate w (Fin 0)"
    using assms by (simp add: window_def min_def)
  have "foldl fadd (Fin 0) (replicate k (Fin 0)) = Fin 0" for k
    by (induction k) simp_all
  then have "fsum (replicate w (Fin 0)) = Fin 0"
    by (simp add: fsum_def)
  then show ?thesis
    using assms by (simp add: rolling_mean_at_def win fl_isna_def)
qed

lemma rsi_constant_series:
  assumes "0 < p" "p \<le> Suc i" "i < n"
  shows "rsi_gain (replicate n (Fin c)) p ! i = Fin 0"
    and "rsi_loss (replicate n (Fin c)) p ! i = Fin 0"
    and "calculate_rsi (replicate n (Fin c)) p ! i = NaN"
proof -
  show 1: "rsi_gain (replicate n (Fin c)) p ! i = Fin 0"
    using assms by (simp add: rsi_gain_def where_gain_replicate rolling_mean_nth
        rolling_mean_at_zeros)
  show 2: "rsi_loss (replicate n (Fin c)) p ! i = Fin 0"
    using assms by (simp add: rsi_loss_def where_loss_replicate rolling_mean_nth
        rolling_mean_at_zeros)
  show "calculate_rsi (replicate n (Fin c)) p ! i = NaN"
    using assms by (simp add: calculate_rsi_nth 1 2 fsub_def)
qed

text \<open>
  Claim C5 as stated fails on a constant series: with 120 closes of 100 and period 14,
  the average loss at row 13 is 0 and the RSI there is \<open>0 / 0\<close>, NaN, not 100.
\<close>

theorem calculate_rsi_constant_series_counterexample:
  "length (replicate 120 (Fin 100)) = 120 \<and>
   rsi_loss (replicate 120 (Fin 100)) 14 ! 13 = Fin 0 \<and>
   calculate_rsi (replicate 120 (Fin 100)) 14 ! 13 = NaN \<and>
   calculate_rsi (replicate 120 (Fin 100)) 14 ! 13 \<noteq> Fin 100"
  by (simp add: rsi_constant_series)

lemma demo_closes_gain_loss:
  "rsi_gain demo_closes 14 ! 13 = Fin (13 / 14)" "rsi_loss demo_closes 14 ! 13 = Fin 0"
  "rsi_gain demo_closes 14 ! 14 = Fin (13 / 14)" "rsi_loss demo_closes 14 ! 14 = Fin (1 / 14)"
  by (simp_all add: demo_closes_def rsi_gain_def rsi_loss_def rolling_mean_nth where_cond_def
      rolling_mean_at_def window_def diff_def shift_def fsub_def fgt_def fl_isna_def fsum_def)

text \<open>On the fifteen sample closes with period 14: row 12 is NaN, row 13 (no loss in the
  window) is 100 and row 14 is \<open>100 - 100 / 14\<close>.\<close>

theorem calculate_rsi_warmup_and_range_witness:
  "calculate_rsi demo_closes 14 ! 12 = NaN \<and>
   calculate_rsi demo_closes 14 ! 13 = Fin 100 \<and>
   calculate_rsi demo_closes 14 ! 14 = Fin (650 / 7)"
proof -
  have f: "\<forall>x\<in>set demo_closes. is_fin x"
    by (simp add: demo_closes_def)
  have len: "12 < length demo_closes" "13 < length demo_closes" "14 < length demo_closes"
    by (simp_all add: demo_closes_def)
  have r12: "calculate_rsi demo_closes 14 ! 12 = NaN"
    using calculate_rsi_warmup_and_range [OF f _ len(1), of 14] by simp
  from calculate_rsi_warmup_and_range [OF f _ len(2), of 14] obtain g l
    where "rsi_gain demo_closes 14 ! 13 = Fin g" "rsi_loss demo_closes 14 ! 13 = Fin l"
      "calculate_rsi demo_closes 14 ! 13 =
         (if l = 0 then (if g = 0 then NaN else Fin 100) else Fin (100 - 100 / (1 + g / l)))"
    by auto
  then have r13: "calculate_rsi demo_closes 14 ! 13 = Fin 100"
    by (simp add: demo_closes_gain_loss)
  from calculate_rsi_warmup_and_range [OF f _ len(3), of 14] obtain g l
    where gl: "rsi_gain demo_closes 14 ! 14 = Fin g" "rsi_loss demo_closes 14 ! 14 = Fin l"
      and v: "calculate_rsi demo_closes 14 ! 14 =
         (if l = 0 then (if g = 0 then NaN else Fin 100) else Fin (100 - 100 / (1 + g / l)))"
    by auto
  from gl have "g = 13 / 14" "l = 1 / 14"
    by (simp_all add: demo_closes_gain_loss)
  with v have r14: "calculate_rsi demo_closes 14 ! 14 = Fin (650 / 7)"
    by simp
  from r12 r13 r14 show ?thesis by simp
qed

section \<open>Facts about the lag-window merges\<close>

lemma collect_Inr:
  assumes "collect f rs = Inr xs"
  shows "length xs = length rs \<and> (\<forall>i<length rs. f (rs ! i) = Inr (xs ! i))"
  using assms
proof (induction rs arbitrary: xs)
  case Nil
  then show ?case by simp
next
  case (Cons r rs)
  from Cons.prems obtain x ys where x: "f r = Inr x" and ys: "collect f rs = Inr ys"
    and xs: "xs = x # ys"
    by (auto split: sum.splits)
  from Cons.IH [OF ys] x show ?case
    by (auto simp: xs nth_Cons split: nat.splits)
qed

lemma collect_total:
  assumes "\<forall>r\<in>set rs. \<exists>x. f r = Inr x"
  shows "\<exists>xs. collect f rs = Inr xs"
  using assms by (induction rs) auto

lemma concat_features_nth:
  assumes "length feats = length (rows df)" "i < length (rows df)"
  shows "rows (concat_features df feats) ! i = add_features (rows df ! i) (feats ! i)"
  using assms by (simp add: concat_features_def)

lemma merge_sentiment_features_nth:
  assumes "merge_sentiment_features df (Some ms) lag = Inr out" and "i < length (rows df)"
  shows "\<exists>f. sentiment_row_features ms lag (rows df ! i) = Inr f \<and>
             rows out ! i = add_features (rows df ! i) f"
proof -
  from assms(1) obtain feats
    where c: "collect (sentiment_row_features ms lag) (rows df) = Inr feats"
      and out: "out = concat_features df feats"
    by (auto simp: merge_sentiment_features_def split: sum.splits)
  from collect_Inr [OF c] assms(2) show ?thesis
    by (simp add: out concat_features_nth)
qed

lemma merge_google_trends_nth:
  assumes "merge_google_trends df (Some tr) lag = Inr out" and "i < length (rows df)"
  shows "\<exists>f. trends_row_features tr lag (rows df ! i) = Inr f \<and>
             rows out ! i = add_features (rows df ! i) f"
proof -
  from assms(1) obtain feats
    where c: "collect (trends_row_features tr lag) (rows df) = Inr feats"
      and out: "out = concat_features df feats"
    by (auto simp: merge_google_trends_def split: sum.splits)
  from collect_Inr [OF c] assms(2) show ?thesis
    by (simp add: out concat_features_nth)
qed

lemma sentiment_row_features_empty:
  assumes "sentiment_row_features ms lag r = Inr f" and "sentiment_window ms lag r = []"
  shows "f = [(''sentiment_mean_7d'', I 0), (''sentiment_std_7d'', I 0),
              (''sentiment_trend_7d'', I 0), (''stress_index_7d'', I 0)]"
  using assms by (auto simp: sentiment_row_features_def split: if_splits)

lemma trends_row_features_empty:
  assumes "trends_row_features tr lag r = Inr f" and "trends_window tr lag r = []"
  shows "f = [(''trends_interest_mean_7d'', I 50), (''trends_interest_max_7d'', I 50),
              (''trends_interest_min_7d'', I 50), (''trends_interest_std_7d'', I 0),
              (''trends_interest_trend_7d'', I 0), (''trends_interest_current'', I 50)]"
  using assms by (auto simp: trends_row_features_def split: if_splits)

text \<open>
  Claim C3. When the auxiliary table is present and the lag window of a feature row holds
  no matching point, \<open>merge_sentiment_features\<close> gives the row the value 0 in
  \<open>sentiment_mean_7d\<close>, \<open>sentiment_std_7d\<close>, \<open>sentiment_trend_7d\<close> and
  \<open>stress_index_7d\<close>, and \<open>merge_google_trends\<close> gives it 50 in the mean, maximum,
  minimum and current search interest and 0 in their standard deviation and trend;
  none of them is NaN.
\<close>

theorem empty_lag_window_defaults:
  assumes "i < length (rows df)"
  shows "(merge_sentiment_features df (Some ms) lag = Inr out \<and>
          sentiment_window ms lag (rows df ! i) = [] \<longrightarrow>
            num (cells (rows out ! i) ''sentiment_mean_7d'') = Fin 0 \<and>
            num (cells (rows out ! i) ''sentiment_std_7d'') = Fin 0 \<and>
            num (cells (rows out ! i) ''sentiment_trend_7d'') = Fin 0 \<and>
            num (cells (rows out ! i) ''stress_index_7d'') = Fin 0) \<and>
         (merge_google_trends df (Some tr) lag = Inr out' \<and>
          trends_window tr lag (rows df ! i) = [] \<longrightarrow>
            num (cells (rows out' ! i) ''trends_interest_mean_7d'') = Fin 50 \<and>
            num (cells (rows out' ! i) ''trends_interest_max_7d'') = Fin 50 \<and>
            num (cells (rows out' ! i) ''trends_interest_min_7d'') = Fin 50 \<and>
            num (cells (rows out' ! i) ''trends_interest_current'') = Fin 50 \<and>
            num (cells (rows out' ! i) ''trends_interest_std_7d'') = Fin 0 \<and>
            num (cells (rows out' ! i) ''trends_interest_trend_7d'') = Fin 0)"
proof (intro conjI impI)
  assume a: "merge_sentiment_features df (Some ms) lag = Inr out \<and>
          sentiment_window ms lag (rows df ! i) = []"
  then obtain f where f: "sentiment_row_features ms lag (rows df ! i) = Inr f"
    and r: "rows out ! i = add_features (rows df ! i) f"
    using merge_sentiment_features_nth assms by blast
  note e = sentiment_row_features_empty [OF f conjunct2 [OF a]]
  show "num (cells (rows out ! i) ''sentiment_mean_7d'') = Fin 0"
    "num (cells (rows out ! i) ''sentiment_std_7d'') = Fin 0"
    "num (cells (rows out ! i) ''sentiment_trend_7d'') = Fin 0"
    "num (cells (rows out ! i) ''stress_index_7d'') = Fin 0"
    by (simp_all add: r e add_features_def)
next
  assume a: "merge_google_trends df (Some tr) lag = Inr out' \<and>
          trends_window tr lag (rows df ! i) = []"
  then obtain f where f: "trends_row_features tr lag (rows df ! i) = Inr f"
    and r: "rows out' ! i = add_features (rows df ! i) f"
    using merge_google_trends_nth assms by blast
  note e = trends_row_features_empty [OF f conjunct2 [OF a]]
  show "num (cells (rows out' ! i) ''trends_interest_mean_7d'') = Fin 50"
    "num (cells (rows out' ! i) ''trends_interest_max_7d'') = Fin 50"
    "num (cells (rows out' ! i) ''trends_interest_min_7d'') = Fin 50"
    "num (cells (rows out' ! i) ''trends_interest_current'') = Fin 50"
    "num (cells (rows out' ! i) ''trends_interest_std_7d'') = Fin 0"
    "num (cells (rows out' ! i) ''trends_interest_trend_7d'') = Fin 0"
    by (simp_all add: r e add_features_def)
qed

lemma merge_sentiment_features_ok:
  assumes "''date'' \<in> set (columns ms)" "''sentiment_mean'' \<in> set (columns ms)"
    "''sentiment_std'' \<in> set (columns ms)" "''stress_index'' \<in> set (columns ms)"
  shows "\<exists>out. merge_sentiment_features df (Some ms) lag = Inr out"
proof -
  have "\<exists>x. sentiment_row_features ms lag r = Inr x" for r
    using assms by (simp add: sentiment_row_features_def Let_def)
  then obtain xs where "collect (sentiment_row_features ms lag) (rows df) = Inr xs"
    using collect_total [of "rows df" "sentiment_row_features ms lag"] by blast
  then show ?thesis by (simp add: merge_sentiment_features_def)
qed

lemma merge_google_trends_ok:
  assumes "''date'' \<in> set (columns tr)" "''asset'' \<in> set (columns tr)"
    "''interest'' \<in> set (columns tr)"
  shows "\<exists>out. merge_google_trends df (Some tr) lag = Inr out"
proof -
  have "\<exists>x. trends_row_features tr lag r = Inr x" for r
    using assms by (simp add: trends_row_features_def Let_def)
  then obtain xs where "collect (trends_row_features tr lag) (rows df) = Inr xs"
    using collect_total [of "rows df" "trends_row_features tr lag"] by blast
  then show ?thesis by (simp add: merge_google_trends_def)
qed

text \<open>On the sample frames: ETH on day 0 has no market sentiment within seven days and no
  search interest of its own.\<close>

theorem empty_lag_window_defaults_witness:
  "\<exists>out out'.
     merge_sentiment_features demo_prices (Some demo_sentiment) SENTIMENT_LAG_DAYS = Inr out \<and>
     sentiment_window demo_sentiment SENTIMENT_LAG_DAYS (rows demo_prices ! 1) = [] \<and>
     num (cells (rows out ! 1) ''sentiment_mean_7d'') = Fin 0 \<and>
     merge_google_trends demo_prices (Some demo_trends) SENTIMENT_LAG_DAYS = Inr out' \<and>
     trends_window demo_trends SENTIMENT_LAG_DAYS (rows demo_prices ! 1) = [] \<and>
     num (cells (rows out' ! 1) ''trends_interest_mean_7d'') = Fin 50"
proof -
  obtain out where
    1: "merge_sentiment_features demo_prices (Some demo_sentiment) SENTIMENT_LAG_DAYS = Inr out"
    using merge_sentiment_features_ok [of demo_sentiment demo_prices SENTIMENT_LAG_DAYS]
    by (auto simp: demo_sentiment_def)
  obtain out' where
    2: "merge_google_trends demo_prices (Some demo_trends) SENTIMENT_LAG_DAYS = Inr out'"
    using merge_google_trends_ok [of demo_trends demo_prices SENTIMENT_LAG_DAYS]
    by (auto simp: demo_trends_def)
  have 3: "sentiment_window demo_sentiment SENTIMENT_LAG_DAYS (rows demo_prices ! 1) = []"
    by (simp add: sentiment_window_def demo_sentiment_def demo_prices_def price_row_def
        SENTIMENT_LAG_DAYS_def)
  have 4: "trends_window demo_trends SENTIMENT_LAG_DAYS (rows demo_prices ! 1) = []"
    by (simp add: trends_window_def demo_trends_def demo_prices_def price_row_def
        SENTIMENT_LAG_DAYS_def)
  have 5: "1 < length (rows demo_prices)"
    by (simp add: demo_prices_def)
  show ?thesis
    using empty_lag_window_defaults [OF 5, of demo_sentiment SENTIMENT_LAG_DAYS out
        demo_trends out'] 1 2 3 4
    by (intro exI [of _ out] exI [of _ out']) simp
qed

text \<open>
  Claim C6, as the code has it. When the market-sentiment table or the search-interest
  table is absent, the merge does not fail and returns the technical frame as it is: no
  sentiment or search-interest column is added, so no default is written and no NaN
  either.
\<close>

theorem merge_absent_table_returns_input:
  "merge_sentiment_features df None lag = Inr df \<and> merge_google_trends df None lag = Inr df"
  by (simp add: merge_sentiment_features_def merge_google_trends_def)

text \<open>
  Claim C6 as stated fails: with both tables absent the output of the merges has no
  \<open>sentiment_mean_7d\<close> and no \<open>trends_interest_mean_7d\<close> column that could hold the
  defaults 0 and 50.
\<close>

theorem merge_absent_table_counterexample:
  "merge_sentiment_features demo_prices None SENTIMENT_LAG_DAYS = Inr demo_prices \<and>
   ''sentiment_mean_7d'' \<notin> set (columns demo_prices) \<and>
   merge_google_trends demo_prices None SENTIMENT_LAG_DAYS = Inr demo_prices \<and>
   ''trends_interest_mean_7d'' \<notin> set (columns demo_prices)"
  by (simp add: merge_sentiment_features_def merge_google_trends_def demo_prices_def)

section \<open>Facts about the per-asset loop\<close>

lemma length_ewm_from [simp]: "length (ewm_from alpha w ow xs) = length xs"
  by (induction xs arbitrary: w ow) (simp_all add: Let_def)

lemma length_ewm_mean [simp]: "length (ewm_mean xs s) = length xs"
  by (cases xs) (simp_all add: ewm_mean_def)

lemma length_rolling_std [simp]: "length (rolling_std xs w) = length xs"
  by (simp add: rolling_std_def)

lemma length_cumsum_from [simp]: "length (cumsum_from acc xs) = length xs"
  by (induction xs arbitrary: acc) simp_all

lemma length_on_balance_volume [simp]:
  "length (on_balance_volume volume close) = min (length close) (length volume)"
  by (simp add: on_balance_volume_def cumsum_def fillna0_def)

lemma length_calculate_volatility [simp]: "length (calculate_volatility xs p) = length xs"
  by (simp add: calculate_volatility_def)

lemma indicator_columns_lengths:
  assumes "length close = n" "length volume = n" "p \<in> set (indicator_columns close volume)"
  shows "length (snd p) = n"
  using assms
  by (auto simp: indicator_columns_def calculate_macd_def calculate_bollinger_bands_def
      Let_def)

lemma set_column_keys:
  assumes "length vals = length (rows df)"
  shows "map row_key (rows (set_column df name vals)) = map row_key (rows df)"
  by (rule nth_equalityI)
    (simp_all add: length_set_column [OF assms] nth_set_column [OF assms] row_key_def)

lemma fold_set_column_keys:
  assumes "\<forall>p\<in>set cols. length (snd p) = length (rows df)"
  shows "map row_key (rows (fold (\<lambda>(name, vals) d. set_column d name vals) cols df)) =
         map row_key (rows df)"
  using assms
proof (induction cols arbitrary: df)
  case Nil
  then show ?case by simp
next
  case (Cons p cols)
  obtain name vals where p: "p = (name, vals)" by (cases p)
  from Cons.prems have l: "length vals = length (rows df)" by (simp add: p)
  have "\<forall>q\<in>set cols. length (snd q) = length (rows (set_column df name vals))"
    using Cons.prems by (simp add: length_set_column [OF l])
  from Cons.IH [OF this] show ?case
    by (simp add: p set_column_keys [OF l])
qed

lemma add_indicators_keys:
  assumes "add_indicators d = Inr f"
  shows "map row_key (rows f) = map row_key (rows d)"
proof -
  have "\<forall>p\<in>set (indicator_columns (column d ''close'') (column d ''volume'')).
          length (snd p) = length (rows d)"
    using indicator_columns_lengths [of "column d ''close''" "length (rows d)"
        "column d ''volume''"]
    by (simp add: column_def)
  from fold_set_column_keys [OF this] assms show ?thesis
    by (auto simp: add_indicators_def split: if_splits)
qed

lemma add_indicators_ok:
  assumes "''close'' \<in> set (columns d)" "''volume'' \<in> set (columns d)"
  shows "\<exists>f. add_indicators d = Inr f"
  using assms by (simp add: add_indicators_def)

lemma length_asset_frame: "length (rows (asset_frame df a)) = observations df a"
  by (simp add: asset_frame_def observations_def)

lemma technical_loop_keys:
  assumes "technical_loop df as = Inr fs"
  shows "map row_key (concat (map rows fs)) =
         concat (map (\<lambda>a. map row_key (rows (asset_frame df a)))
                   (filter (\<lambda>a. 100 \<le> observations df a) as))"
  using assms
proof (induction as arbitrary: fs)
  case Nil
  then show ?case by simp
next
  case (Cons a as)
  show ?case
  proof (cases "observations df a < 100")
    case True
    with Cons.prems have "technical_loop df as = Inr fs"
      by (simp add: length_asset_frame)
    from Cons.IH [OF this] True show ?thesis by simp
  next
    case False
    with Cons.prems obtain f gs where f: "add_indicators (asset_frame df a) = Inr f"
      and gs: "technical_loop df as = Inr gs" and fs: "fs = f # gs"
      by (auto simp: length_asset_frame split: sum.splits)
    from Cons.IH [OF gs] add_indicators_keys [OF f] False show ?thesis
      by (simp add: fs)
  qed
qed

lemma technical_loop_nonempty:
  assumes "technical_loop df as = Inr fs" "a \<in> set as" "100 \<le> observations df a"
  shows "fs \<noteq> []"
  using assms
proof (induction as arbitrary: fs)
  case Nil
  then show ?case by simp
next
  case (Cons b as)
  then show ?case
    by (cases "observations df b < 100")
      (auto simp: length_asset_frame split: sum.splits)
qed

lemma technical_loop_ok:
  assumes "''close'' \<in> set (columns df)" "''volume'' \<in> set (columns df)"
  shows "\<exists>fs. technical_loop df as = Inr fs"
proof (induction as)
  case Nil
  then show ?case by simp
next
  case (Cons a as)
  have "\<exists>f. add_indicators (asset_frame df a) = Inr f"
    using assms by (intro add_indicators_ok) (simp_all add: asset_frame_def)
  with Cons show ?case by (auto simp: Let_def)
qed

lemma set_unique [simp]: "set (unique xs) = set xs"
  by (simp add: unique_def)

lemma distinct_unique [simp]: "distinct (unique xs)"
  by (simp add: unique_def)

lemma asset_frame_key:
  assumes "k \<in> set (map row_key (rows (asset_frame df b)))"
  shows "fst k = b"
  using assms by (auto simp: asset_frame_def row_key_def)

lemma filter_blocks:
  assumes "distinct bs" and "\<And>b k. k \<in> set (blk b) \<Longrightarrow> fst k = b"
  shows "filter (\<lambda>k. fst k = a) (concat (map blk bs)) = (if a \<in> set bs then blk a else [])"
  using assms(1)
proof (induction bs)
  case Nil
  then show ?case by simp
next
  case (Cons b bs)
  have same: "filter (\<lambda>k. fst k = b) (blk b) = blk b"
    using assms(2) by (simp add: filter_id_conv)
  have other: "filter (\<lambda>k. fst k = a) (blk b) = []" if "a \<noteq> b"
    using assms(2) that by (auto simp: filter_empty_conv)
  show ?case
  proof (cases "a = b")
    case True
    with Cons show ?thesis by (simp add: same)
  next
    case False
    with Cons show ?thesis by (simp add: other)
  qed
qed

lemma observed_asset:
  assumes "100 \<le> observations df a"
  shows "a \<in> set (map asset (rows df))"
proof -
  from assms have "filter (\<lambda>r. asset r = a) (rows df) \<noteq> []"
    by (auto simp: observations_def)
  then obtain r where "r \<in> set (rows df)" "asset r = a"
    by (auto simp: filter_empty_conv)
  then show ?thesis by auto
qed


lemma calculate_technical_features_keys:
  assumes "calculate_technical_features df = Inr out"
  shows "map row_key (rows out) =
         concat (map (\<lambda>a. map row_key (rows (asset_frame df a)))
                   (filter (\<lambda>a. 100 \<le> observations df a) (unique (map asset (rows df)))))"
proof -
  from assms obtain fs where fs: "technical_loop df (unique (map asset (rows df))) = Inr fs"
    and out: "pd_concat fs = Inr out"
    by (auto simp: calculate_technical_features_def split: sum.splits)
  from out have "rows out = concat (map rows fs)"
    by (auto simp: pd_concat_def split: if_splits)
  with technical_loop_keys [OF fs] show ?thesis by simp
qed

lemma calculate_technical_features_ok:
  assumes "''close'' \<in> set (columns df)" "''volume'' \<in> set (columns df)"
    and "100 \<le> observations df b"
  shows "\<exists>out. calculate_technical_features df = Inr out"
proof -
  from technical_loop_ok [OF assms(1,2)] obtain fs
    where fs: "technical_loop df (unique (map asset (rows df))) = Inr fs" by blast
  have "b \<in> set (unique (map asset (rows df)))"
    using observed_asset [OF assms(3)] by simp
  from technical_loop_nonempty [OF fs this assms(3)] have "fs \<noteq> []" .
  then show ?thesis
    by (simp add: calculate_technical_features_def fs pd_concat_def)
qed

text \<open>
  Claim C7. Whenever \<open>calculate_technical_features\<close> returns a frame, an asset with
  fewer than 100 rows has no row in it, and an asset with at least 100 rows has all of
  its rows there, in date order. The skip does not stop the run: when the frame has its
  \<open>close\<close> and \<open>volume\<close> columns and some asset has at least 100 rows, a frame is
  returned. (With no such asset \<open>pd.concat\<close> of the empty list raises ValueError.)
\<close>

theorem short_history_assets_are_skipped:
  "(\<forall>out. calculate_technical_features df = Inr out \<longrightarrow>
      (\<forall>a. observations df a < 100 \<longrightarrow> (\<forall>r\<in>set (rows out). asset r \<noteq> a)) \<and>
      (\<forall>a. 100 \<le> observations df a \<longrightarrow>
         map row_key (filter (\<lambda>r. asset r = a) (rows out)) =
         map row_key (sort_key date (filter (\<lambda>r. asset r = a) (rows df))))) \<and>
   (''close'' \<in> set (columns df) \<and> ''volume'' \<in> set (columns df) \<and>
    (\<exists>b. 100 \<le> observations df b) \<longrightarrow>
      (\<exists>out. calculate_technical_features df = Inr out))"
proof (intro conjI allI impI ballI)
  fix out a r
  assume run: "calculate_technical_features df = Inr out"
    and short: "observations df a < 100" and r: "r \<in> set (rows out)"
  let ?kept = "filter (\<lambda>a. 100 \<le> observations df a) (unique (map asset (rows df)))"
  from r have "row_key r \<in> set (map row_key (rows out))" by simp
  then obtain b where b: "b \<in> set ?kept"
    and k: "row_key r \<in> set (map row_key (rows (asset_frame df b)))"
    unfolding calculate_technical_features_keys [OF run] by auto
  from asset_frame_key [OF k] have "asset r = b" by (simp add: row_key_def)
  with b short show "asset r \<noteq> a" by auto
next
  fix out a
  assume run: "calculate_technical_features df = Inr out"
    and long: "100 \<le> observations df a"
  let ?kept = "filter (\<lambda>a. 100 \<le> observations df a) (unique (map asset (rows df)))"
  have a: "a \<in> set ?kept"
    using observed_asset [OF long] long by simp
  have d: "distinct ?kept" by simp
  have "map row_key (filter (\<lambda>r. asset r = a) (rows out)) =
        filter (\<lambda>k. fst k = a) (map row_key (rows out))"
    by (simp add: filter_map comp_def row_key_def)
  also have "\<dots> = map row_key (rows (asset_frame df a))"
    unfolding calculate_technical_features_keys [OF run]
    using filter_blocks [OF d, of "\<lambda>a. map row_key (rows (asset_frame df a))" a]
      asset_frame_key a
    by simp
  finally show "map row_key (filter (\<lambda>r. asset r = a) (rows out)) =
         map row_key (sort_key date (filter (\<lambda>r. asset r = a) (rows df)))"
    by (simp add: asset_frame_def)
next
  assume "''close'' \<in> set (columns df) \<and> ''volume'' \<in> set (columns df) \<and>
    (\<exists>b. 100 \<le> observations df b)"
  then show "\<exists>out. calculate_technical_features df = Inr out"
    using calculate_technical_features_ok by blast
qed

lemma demo_history_observations:
  "observations demo_history ''BTC'' = 100" "observations demo_history ''ETH'' = 50"
  by (simp_all add: observations_def demo_history_def bar_def filter_map comp_def)

text \<open>On the sample history ETH (50 bars) is dropped and BTC (100 bars) is kept whole.\<close>

theorem short_history_assets_are_skipped_witness:
  "\<exists>out. calculate_technical_features demo_history = Inr out \<and>
      observations demo_history ''ETH'' = 50 \<and>
      observations demo_history ''BTC'' = 100 \<and>
      filter (\<lambda>r. asset r = ''ETH'') (rows out) = [] \<and>
      length (filter (\<lambda>r. asset r = ''BTC'') (rows out)) = 100"
proof -
  have c: "''close'' \<in> set (columns demo_history)" "''volume'' \<in> set (columns demo_history)"
    by (simp_all add: demo_history_def)
  note t = short_history_assets_are_skipped [of demo_history]
  from t c demo_history_observations(1) obtain out
    where run: "calculate_technical_features demo_history = Inr out"
    by (metis order_refl)
  from t run demo_history_observations(2)
  have "\<forall>r\<in>set (rows out). asset r \<noteq> ''ETH''" by simp
  then have e: "filter (\<lambda>r. asset r = ''ETH'') (rows out) = []"
    by (simp add: filter_empty_conv)
  from t run demo_history_observations(1)
  have "map row_key (filter (\<lambda>r. asset r = ''BTC'') (rows out)) =
        map row_key (sort_key date (filter (\<lambda>r. asset r = ''BTC'') (rows demo_history)))"
    by simp
  from arg_cong [OF this, of length] demo_history_observations(1)
  have b: "length (filter (\<lambda>r. asset r = ''BTC'') (rows out)) = 100"
    by (simp add: observations_def)
  from run e b demo_history_observations show ?thesis by blast
qed

section \<open>Facts about the Sentiment Aggregator\<close>




lemma dropna_fl_idem [simp]: "dropna_fl (dropna_fl xs) = dropna_fl xs"
  by (simp add: dropna_fl_def)





















section \<open>Facts about the Dataset Finalizer\<close>

lemma scatter_keys: "map row_key (scatter sel c rs vs) = map row_key rs"
  by (induction rs arbitrary: vs) (auto simp: row_key_def split: list.splits)

lemma scatter_other_cells:
  "c' \<noteq> c \<Longrightarrow> map (\<lambda>r. cells r c') (scatter sel c rs vs) = map (\<lambda>r. cells r c') rs"
  by (induction rs arbitrary: vs) (auto split: list.splits)

lemma same_outside_refl: "same_outside fc rs rs"
  by (simp add: same_outside_def)

lemma same_outside_trans:
  "same_outside fc rs rs' \<Longrightarrow> same_outside fc rs' rs'' \<Longrightarrow> same_outside fc rs rs''"
  by (simp add: same_outside_def)

lemma fill_column_same_outside:
  assumes "c \<in> set fc"
  shows "same_outside fc rs (fill_column a c rs)"
proof -
  have "map (\<lambda>r. cells r c') (fill_column a c rs) = map (\<lambda>r. cells r c') rs"
    if "c' \<notin> set fc" for c'
  proof -
    from that assms have "c' \<noteq> c" by auto
    then show ?thesis
      unfolding fill_column_def by (rule scatter_other_cells)
  qed
  then show ?thesis
    by (simp add: same_outside_def fill_column_def scatter_keys)
qed

lemma fold_fill_column_same_outside:
  "set cs \<subseteq> set fc \<Longrightarrow> same_outside fc rs (fold (fill_column a) cs rs)"
proof (induction cs arbitrary: rs)
  case Nil
  then show ?case by (simp add: same_outside_refl)
next
  case (Cons c cs)
  from Cons.prems have "same_outside fc rs (fill_column a c rs)"
    by (intro fill_column_same_outside) simp
  moreover from Cons have
    "same_outside fc (fill_column a c rs) (fold (fill_column a) cs (fill_column a c rs))"
    by simp
  ultimately show ?case
    by (simp add: same_outside_trans)
qed

lemma fill_asset_same_outside: "same_outside fc rs (fill_asset fc a rs)"
  by (simp add: fill_asset_def fold_fill_column_same_outside)

lemma fold_fill_asset_same_outside: "same_outside fc rs (fold (fill_asset fc) as rs)"
proof (induction as arbitrary: rs)
  case Nil
  then show ?case by (simp add: same_outside_refl)
next
  case (Cons a as)
  show ?case
    using fill_asset_same_outside [of fc rs a] Cons [of "fill_asset fc a rs"]
    by (simp add: same_outside_trans)
qed

lemma same_outside_cell:
  assumes "same_outside fc rs rs'" "r' \<in> set rs'" "c \<notin> set fc"
  shows "\<exists>r\<in>set rs. cells r' c = cells r c \<and> row_key r' = row_key r"
proof -
  from assms(2) obtain i where i: "i < length rs'" "r' = rs' ! i"
    by (auto simp: in_set_conv_nth)
  from assms(1) have k: "map row_key rs' = map row_key rs"
    and c: "map (\<lambda>r. cells r c) rs' = map (\<lambda>r. cells r c) rs"
    using assms(3) by (simp_all add: same_outside_def)
  from arg_cong [OF k, of length] have len: "length rs' = length rs" by simp
  from arg_cong [OF k, of "\<lambda>xs. xs ! i"] arg_cong [OF c, of "\<lambda>xs. xs ! i"] i len
  have "cells r' c = cells (rs ! i) c \<and> row_key r' = row_key (rs ! i)"
    by simp
  with i len show ?thesis by auto
qed

lemma distinct_keys_filter:
  "distinct (map row_key rs) \<Longrightarrow> distinct (map row_key (filter P rs))"
  by (simp add: distinct_map_filter)

lemma distinct_keys_sort:
  "distinct (map row_key (sort_key row_key rs)) = distinct (map row_key rs)"
proof -
  have "mset (map row_key (sort_key row_key rs)) = mset (map row_key rs)"
    by simp
  then show ?thesis
    by (rule mset_eq_imp_distinct_iff)
qed

lemma strict_dates_per_asset:
  assumes "sorted_wrt (<) (map row_key rs)"
  shows "sorted_wrt (<) (map date (filter (\<lambda>r. asset r = a) rs))"
proof -
  from assms have "sorted_wrt (\<lambda>r r'. row_key r < row_key r') rs"
    by (simp add: sorted_wrt_map)
  then have "sorted_wrt (\<lambda>r r'. row_key r < row_key r') (filter (\<lambda>r. asset r = a) rs)"
    by (rule sorted_wrt_filter)
  then have "sorted_wrt (\<lambda>r r'. date r < date r') (filter (\<lambda>r. asset r = a) rs)"
    by (rule sorted_wrt_mono_rel [rotated]) (auto simp: row_key_def less_prod_def)
  then show ?thesis
    by (simp add: sorted_wrt_map)
qed


lemma finalize_dataset_Inr:
  assumes "finalize_dataset df = Inr out"
  defines "tc \<equiv> filter (\<lambda>c. startswith c ''target_'') (columns df)"
    and "fc \<equiv> filter (\<lambda>c. c \<notin> set non_feature_cols \<and> \<not> startswith c ''target_'') (columns df)"
  defines "rows1 \<equiv> dropna_rows tc (rows df)"
  defines "rows2 \<equiv> fold (fill_asset fc) (unique (map asset rows1)) rows1"
  shows "rows out = sort_key row_key (dropna_rows fc rows2)"
    and "set (columns out) \<subseteq> set (columns df)"
    and "columns out = meta_cols @ price_cols @
     filter (\<lambda>c. c \<notin> set (meta_cols @ price_cols @ tc)) (columns df) @ tc"
proof -
  let ?ordered = "meta_cols @ price_cols @
     filter (\<lambda>c. c \<notin> set (meta_cols @ price_cols @ tc)) (columns df) @ tc"
  have eq: "finalize_dataset df =
      (if ''asset'' \<notin> set (columns df) then Inl (KeyError ''asset'')
       else case find (\<lambda>c. c \<notin> set (columns df)) ?ordered of
              Some c \<Rightarrow> Inl (KeyError c)
            | None \<Rightarrow> Inr \<lparr>columns = ?ordered,
                           rows = sort_key row_key (dropna_rows fc rows2)\<rparr>)"
    by (simp only: finalize_dataset_def Let_def tc_def fc_def rows1_def rows2_def)
  from assms(1) have a: "''asset'' \<in> set (columns df)"
    unfolding eq by (cases "''asset'' \<in> set (columns df)") simp_all
  from assms(1) a have f: "find (\<lambda>c. c \<notin> set (columns df)) ?ordered = None"
    unfolding eq by (cases "find (\<lambda>c. c \<notin> set (columns df)) ?ordered") simp_all
  from assms(1) have out: "Inr out =
      (Inr \<lparr>columns = ?ordered, rows = sort_key row_key (dropna_rows fc rows2)\<rparr>
        :: error + dataframe)"
    unfolding eq by (simp only: a f not_True_eq_False if_False option.case simp_thms)
  then have o: "out = \<lparr>columns = ?ordered, rows = sort_key row_key (dropna_rows fc rows2)\<rparr>"
    by (simp only: sum.inject)
  show c: "columns out = ?ordered"
    by (subst o) (rule dataframe.select_convs)
  show "rows out = sort_key row_key (dropna_rows fc rows2)"
    by (subst o) (rule dataframe.select_convs)
  from f have "\<forall>c\<in>set ?ordered. c \<in> set (columns df)"
    by (simp only: find_None_iff) blast
  then show "set (columns out) \<subseteq> set (columns df)"
    unfolding c by blast
qed

text \<open>
  Claim C4, as the code has it. In the frame \<open>finalize_dataset\<close> returns, no target
  column and no feature column holds a missing value, where the feature columns are
  all columns but \<open>date\<close>, \<open>asset\<close>, \<open>asset_type\<close>, \<open>open\<close>, \<open>high\<close>, \<open>low\<close>,
  \<open>close\<close>, \<open>volume\<close> and \<open>market_position\<close>; the rows are sorted by (asset, date);
  and when the input has no two rows with the same (asset, date), neither has the
  output, and the dates of each asset are strictly increasing.
\<close>

theorem finalize_dataset_invariant:
  assumes "finalize_dataset df = Inr out"
  shows "(\<forall>r\<in>set (rows out). \<forall>c\<in>set (columns out).
            c \<notin> set non_feature_cols \<longrightarrow> \<not> isna (cells r c)) \<and>
         sorted (map row_key (rows out)) \<and>
         (distinct (map row_key (rows df)) \<longrightarrow>
            distinct (map row_key (rows out)) \<and>
            (\<forall>a. sorted_wrt (<) (map date (filter (\<lambda>r. asset r = a) (rows out)))))"
proof (intro conjI ballI impI allI)
  define tc where "tc = filter (\<lambda>c. startswith c ''target_'') (columns df)"
  define fc where
    "fc = filter (\<lambda>c. c \<notin> set non_feature_cols \<and> \<not> startswith c ''target_'') (columns df)"
  define rows1 where "rows1 = dropna_rows tc (rows df)"
  define rows2 where "rows2 = fold (fill_asset fc) (unique (map asset rows1)) rows1"
  have r: "rows out = sort_key row_key (dropna_rows fc rows2)"
    "set (columns out) \<subseteq> set (columns df)"
    unfolding rows2_def rows1_def tc_def fc_def
    by (rule finalize_dataset_Inr [OF assms])+
  have so: "same_outside fc rows1 rows2"
    unfolding rows2_def by (rule fold_fill_asset_same_outside)
  {
    fix r c
    assume rin: "r \<in> set (rows out)" and cin: "c \<in> set (columns out)"
      and cn: "c \<notin> set non_feature_cols"
    from rin have r3: "r \<in> set (dropna_rows fc rows2)"
      by (simp add: r(1))
    then have r2: "r \<in> set rows2" and feat: "\<forall>c\<in>set fc. \<not> isna (cells r c)"
      by (simp_all add: dropna_rows_def list_all_iff)
    from cin r(2) have cdf: "c \<in> set (columns df)" by auto
    show "\<not> isna (cells r c)"
    proof (cases "startswith c ''target_''")
      case False
      with cdf cn have "c \<in> set fc" by (simp add: fc_def)
      with feat show ?thesis by simp
    next
      case True
      then have "c \<notin> set fc" by (simp add: fc_def)
      from same_outside_cell [OF so r2 this] obtain r1
        where r1: "r1 \<in> set rows1" "cells r c = cells r1 c" by auto
      from True cdf have "c \<in> set tc" by (simp add: tc_def)
      with r1(1) have "\<not> isna (cells r1 c)"
        by (simp add: rows1_def dropna_rows_def list_all_iff)
      with r1(2) show ?thesis by simp
    qed
  }
  show "sorted (map row_key (rows out))"
    by (simp add: r(1))
  {
    assume d: "distinct (map row_key (rows df))"
    then have "distinct (map row_key rows1)"
      unfolding rows1_def dropna_rows_def by (rule distinct_keys_filter)
    with so have "distinct (map row_key rows2)"
      by (simp add: same_outside_def)
    then have "distinct (map row_key (dropna_rows fc rows2))"
      unfolding dropna_rows_def by (rule distinct_keys_filter)
    then show dist: "distinct (map row_key (rows out))"
      by (simp add: r(1) distinct_keys_sort)
    fix a
    from dist \<open>sorted (map row_key (rows out))\<close>
    have "sorted_wrt (<) (map row_key (rows out))"
      by (simp add: strict_sorted_iff)
    then show "sorted_wrt (<) (map date (filter (\<lambda>r. asset r = a) (rows out)))"
      by (rule strict_dates_per_asset)
  }
qed

lemma finalize_dataset_ok:
  assumes "set (meta_cols @ price_cols) \<subseteq> set (columns df)"
  shows "\<exists>out. finalize_dataset df = Inr out"
proof -
  define tc where "tc = filter (\<lambda>c. startswith c ''target_'') (columns df)"
  let ?ordered = "meta_cols @ price_cols @
     filter (\<lambda>c. c \<notin> set (meta_cols @ price_cols @ tc)) (columns df) @ tc"
  have "\<forall>c\<in>set ?ordered. c \<in> set (columns df)"
    using assms by (auto simp: tc_def)
  then have f: "find (\<lambda>c. c \<notin> set (columns df)) ?ordered = None"
    by (simp only: find_None_iff) blast
  have a: "''asset'' \<in> set (columns df)"
    using assms by (simp add: meta_cols_def)
  show ?thesis
    unfolding finalize_dataset_def Let_def
    using f a by (simp add: tc_def)
qed


lemma demo_features_sorted:
  "sort_key row_key
     [feature_row 1 ''ETH'' (Fin 40) (S ''neutral'') (Fin 0.1),
      feature_row 2 ''ETH'' (Fin 40) (F NaN) (Fin 0.2),
      feature_row 1 ''BTC'' (Fin 50) (S ''neutral'') (Fin 0.3),
      feature_row 1 ''BTC'' (Fin 50) (S ''neutral'') (Fin 0.3)] =
     [feature_row 1 ''BTC'' (Fin 50) (S ''neutral'') (Fin 0.3),
      feature_row 1 ''BTC'' (Fin 50) (S ''neutral'') (Fin 0.3),
      feature_row 1 ''ETH'' (Fin 40) (S ''neutral'') (Fin 0.1),
      feature_row 2 ''ETH'' (Fin 40) (F NaN) (Fin 0.2)]"
  by (simp add: row_key_def feature_row_def less_eq_char_def less_char_def)

lemma demo_features_cols:
  "filter (\<lambda>c. startswith c ''target_'') (columns demo_features) = [''target_return_3d'']"
  "filter (\<lambda>c. c \<notin> set non_feature_cols \<and> \<not> startswith c ''target_'')
     (columns demo_features) = [''rsi'']"
  by (simp_all add: demo_features_def startswith_def non_feature_cols_def)

lemma demo_features_rows1:
  "dropna_rows [''target_return_3d''] (rows demo_features) =
     [feature_row 1 ''ETH'' (Fin 40) (S ''neutral'') (Fin 0.1),
      feature_row 2 ''ETH'' NaN (F NaN) (Fin 0.2),
      feature_row 1 ''BTC'' (Fin 50) (S ''neutral'') (Fin 0.3),
      feature_row 1 ''BTC'' (Fin 50) (S ''neutral'') (Fin 0.3)]"
  by (simp add: demo_features_def dropna_rows_def feature_row_def)

lemma feature_row_set_rsi:
  "(feature_row d a x p t)\<lparr>cells := (cells (feature_row d a x p t))(''rsi'' := F y)\<rparr> =
   feature_row d a y p t"
  by (simp add: feature_row_def fun_eq_iff)

lemma demo_features_rows2:
  "fold (fill_asset [''rsi'']) [''ETH'', ''BTC'']
     [feature_row 1 ''ETH'' (Fin 40) (S ''neutral'') (Fin 0.1),
      feature_row 2 ''ETH'' NaN (F NaN) (Fin 0.2),
      feature_row 1 ''BTC'' (Fin 50) (S ''neutral'') (Fin 0.3),
      feature_row 1 ''BTC'' (Fin 50) (S ''neutral'') (Fin 0.3)] =
     [feature_row 1 ''ETH'' (Fin 40) (S ''neutral'') (Fin 0.1),
      feature_row 2 ''ETH'' (Fin 40) (F NaN) (Fin 0.2),
      feature_row 1 ''BTC'' (Fin 50) (S ''neutral'') (Fin 0.3),
      feature_row 1 ''BTC'' (Fin 50) (S ''neutral'') (Fin 0.3)]"
proof -
  have c: "cells (feature_row d a x p t) ''rsi'' = F x" for d a x p t
    by (simp add: feature_row_def)
  have a: "asset (feature_row d a x p t) = a" for d a x p t
    by (simp add: feature_row_def)
  show ?thesis
    by (simp add: fill_asset_def fill_column_def bfill_def c a feature_row_set_rsi)
qed


lemma demo_features_out:
  assumes "finalize_dataset demo_features = Inr out"
  shows "rows out =
     [feature_row 1 ''BTC'' (Fin 50) (S ''neutral'') (Fin 0.3),
      feature_row 1 ''BTC'' (Fin 50) (S ''neutral'') (Fin 0.3),
      feature_row 1 ''ETH'' (Fin 40) (S ''neutral'') (Fin 0.1),
      feature_row 2 ''ETH'' (Fin 40) (F NaN) (Fin 0.2)]"
proof -
  have u: "unique (map asset
     [feature_row 1 ''ETH'' (Fin 40) (S ''neutral'') (Fin 0.1),
      feature_row 2 ''ETH'' NaN (F NaN) (Fin 0.2),
      feature_row 1 ''BTC'' (Fin 50) (S ''neutral'') (Fin 0.3),
      feature_row 1 ''BTC'' (Fin 50) (S ''neutral'') (Fin 0.3)]) = [''ETH'', ''BTC'']"
    by (simp add: unique_def feature_row_def)
  have d: "dropna_rows [''rsi'']
     [feature_row 1 ''ETH'' (Fin 40) (S ''neutral'') (Fin 0.1),
      feature_row 2 ''ETH'' (Fin 40) (F NaN) (Fin 0.2),
      feature_row 1 ''BTC'' (Fin 50) (S ''neutral'') (Fin 0.3),
      feature_row 1 ''BTC'' (Fin 50) (S ''neutral'') (Fin 0.3)] =
     [feature_row 1 ''ETH'' (Fin 40) (S ''neutral'') (Fin 0.1),
      feature_row 2 ''ETH'' (Fin 40) (F NaN) (Fin 0.2),
      feature_row 1 ''BTC'' (Fin 50) (S ''neutral'') (Fin 0.3),
      feature_row 1 ''BTC'' (Fin 50) (S ''neutral'') (Fin 0.3)]"
    by (simp add: dropna_rows_def feature_row_def)
  show ?thesis
    by (simp only: finalize_dataset_Inr(1) [OF assms] demo_features_cols demo_features_rows1
        u demo_features_rows2 d demo_features_sorted)
qed

lemma demo_features_ok: "\<exists>out. finalize_dataset demo_features = Inr out"
  by (rule finalize_dataset_ok) (simp add: demo_features_def meta_cols_def price_cols_def)

text \<open>
  Claim C4 as stated fails on the sample frame: the row of ETH on day 2 reaches the
  output with a missing \<open>market_position\<close>, a column the finalizer neither fills nor
  checks, and the two rows of BTC on day 1 both reach it.
\<close>

theorem finalize_dataset_counterexample:
  "\<exists>out. finalize_dataset demo_features = Inr out \<and>
      ''market_position'' \<in> set (columns out) \<and>
      isna (cells (rows out ! 3) ''market_position'') \<and>
      row_key (rows out ! 0) = row_key (rows out ! 1)"
proof -
  from demo_features_ok obtain out where run: "finalize_dataset demo_features = Inr out"
    by blast
  have c: "''market_position'' \<in> set (columns out)"
    unfolding finalize_dataset_Inr(3) [OF run] demo_features_cols
    by (simp add: demo_features_def meta_cols_def price_cols_def)
  from run c show ?thesis
    by (intro exI [of _ out]) (simp add: demo_features_out [OF run] feature_row_def row_key_def)
qed

text \<open>On the sample frame the row without a target is dropped, the missing \<open>rsi\<close> of
  ETH on day 2 is filled with 40 from day 1, and the rows come out sorted.\<close>

theorem finalize_dataset_invariant_witness:
  "\<exists>out. finalize_dataset demo_features = Inr out \<and>
      map row_key (rows out) = [(''BTC'', 1), (''BTC'', 1), (''ETH'', 1), (''ETH'', 2)] \<and>
      sorted (map row_key (rows out)) \<and>
      ''rsi'' \<in> set (columns out) \<and> ''rsi'' \<notin> set non_feature_cols \<and>
      rows out ! 3 \<in> set (rows out) \<and>
      \<not> isna (cells (rows out ! 3) ''rsi'') \<and>
      cells (rows out ! 3) ''rsi'' = F (Fin 40)"
proof -
  from demo_features_ok obtain out where run: "finalize_dataset demo_features = Inr out"
    by blast
  note rows = demo_features_out [OF run]
  have c: "''rsi'' \<in> set (columns out)"
    unfolding finalize_dataset_Inr(3) [OF run] demo_features_cols
    by (simp add: demo_features_def meta_cols_def price_cols_def)
  have n: "''rsi'' \<notin> set non_feature_cols"
    by (simp add: non_feature_cols_def)
  have m: "rows out ! 3 \<in> set (rows out)"
    by (simp add: rows)
  from finalize_dataset_invariant [OF run] m c n
  have "\<not> isna (cells (rows out ! 3) ''rsi'')" and "sorted (map row_key (rows out))"
    by blast+
  moreover have "map row_key (rows out) = [(''BTC'', 1), (''BTC'', 1), (''ETH'', 1), (''ETH'', 2)]"
    by (simp add: rows row_key_def feature_row_def)
  moreover have "cells (rows out ! 3) ''rsi'' = F (Fin 40)"
    by (simp add: rows feature_row_def)
  ultimately show ?thesis
    using run c n m by (intro exI [of _ out]) simp
qed

end
